theory Spec2Isabelle
  imports Main
begin

section \<open>Exceptions\<close>

text \<open>
  The exception classes that the sources name (\<^verbatim>\<open>pandasai.exceptions\<close>, and the Python
  built-ins that the modelled code can raise). All of them derive from Python's
  \<^verbatim>\<open>Exception\<close>, so an \<^verbatim>\<open>except Exception\<close> clause catches every value of this type.
  A raised exception is a value \<open>Inl e\<close> of a sum type; a returned value is \<open>Inr v\<close>.
\<close>

datatype exn_class =
    CodeExecutionError
  | InvalidLLMOutputType
  | MaliciousQueryError
  | BadImportError
  | MissingVectorStoreError
  | PandasAIApiKeyError
  | PandasAIApiCallError
  | ValueError
  | AttributeError
  | UnboundLocalError
  | OtherException

datatype exn = Exn (exn_cls: exn_class) (exn_msg: string)

definition isinstance :: "exn \<Rightarrow> exn_class \<Rightarrow> bool" where
  "isinstance e c = (exn_cls e = c)"

fun class_name :: "exn_class \<Rightarrow> string" where
  "class_name CodeExecutionError = ''CodeExecutionError''"
| "class_name InvalidLLMOutputType = ''InvalidLLMOutputType''"
| "class_name MaliciousQueryError = ''MaliciousQueryError''"
| "class_name BadImportError = ''BadImportError''"
| "class_name MissingVectorStoreError = ''MissingVectorStoreError''"
| "class_name PandasAIApiKeyError = ''PandasAIApiKeyError''"
| "class_name PandasAIApiCallError = ''PandasAIApiCallError''"
| "class_name ValueError = ''ValueError''"
| "class_name AttributeError = ''AttributeError''"
| "class_name UnboundLocalError = ''UnboundLocalError''"
| "class_name OtherException = ''Exception''"

text \<open>
  \<^verbatim>\<open>traceback.format_exc()\<close> renders the exception that is being handled at the point of
  the call (Python's \<^verbatim>\<open>sys.exc_info()\<close>); the argument is that exception, \<open>None\<close> outside
  every handler. The stack frames of the real text are left out.
\<close>

definition format_exc :: "exn option \<Rightarrow> string" where
  "format_exc handled =
     (case handled of
        None \<Rightarrow> ''NoneType: None''
      | Some e \<Rightarrow> ''Traceback (most recent call last): '' @ class_name (exn_cls e) @ '': '' @ exn_msg e)"

section \<open>Conversation state\<close>

text \<open>
  Modelled from the spec: the prompt builders \<^verbatim>\<open>get_chat_prompt_for_sql\<close>,
  \<^verbatim>\<open>get_correct_error_prompt_for_sql\<close> and \<^verbatim>\<open>get_correct_output_type_error_prompt\<close> of
  \<^verbatim>\<open>pandasai.core.prompts\<close> are not among the sources. A prompt is the structured request of
  the spec (conversation history and output type expectation of the state it was built from
  and, for a correction request, the failing code and the diagnostic), tagged with the
  builder that made it.
\<close>

datatype prompt =
    ChatPromptForSql (p_memory: "(string \<times> bool) list") (p_output_type: "string option")
  | CorrectErrorPromptForSql (p_memory: "(string \<times> bool) list") (p_output_type: "string option")
      (p_code: "string option") (p_trace: string)
  | CorrectOutputTypeErrorPrompt (p_memory: "(string \<times> bool) list") (p_output_type: "string option")
      (p_code: "string option") (p_trace: string)

text \<open>What the agent writes to its logger, one constructor per message of \<^verbatim>\<open>agent/base.py\<close>.\<close>

datatype log_entry =
    LogQuestion string
  | LogRunning string
  | LogGeneratingNewCode
  | LogExecutingCode "string option"
  | LogExecutionFailed string
  | LogMaxRetryExceeded exn
  | LogRetryingGeneration int int
  | LogMaxRetriesReached exn
  | LogRetryingExecution int int
  | LogResponseGenerated
  | LogProcessingFailed string

text \<open>
  Modelled from the spec: \<^verbatim>\<open>AgentState\<close>, its \<^verbatim>\<open>Memory\<close>, its \<^verbatim>\<open>Logger\<close> and its \<^verbatim>\<open>Config\<close> are
  not among the sources. The record has the fields that \<^verbatim>\<open>agent/base.py\<close> reads and writes.
  \<open>memory\<close> is the ordered message history of the spec: \<^verbatim>\<open>memory.add\<close> appends a message with
  its \<^verbatim>\<open>is_user\<close> flag and \<^verbatim>\<open>memory.clear\<close> empties the history. \<open>logger\<close> keeps what was
  logged, \<open>llm\<close> is \<^verbatim>\<open>config.llm\<close> (\<open>None\<close>, or the \<^verbatim>\<open>type\<close> of the configured model) and
  \<open>max_retries\<close> is \<^verbatim>\<open>config.max_retries\<close>, a Python integer.
  \<open>gen_requests\<close> and \<open>exec_requests\<close> are not fields of the Python object: they list the
  prompts sent to the code generator and the programs sent to the executor, in the order of
  the calls, so that these collaborators may answer every call differently and so that
  attempts can be counted.
\<close>

record 'd agent_state =
  dfs :: "'d list"
  memory :: "(string \<times> bool) list"
  last_code_generated :: "string option"
  last_prompt_used :: "prompt option"
  output_type :: "string option"
  prompt_id :: nat
  llm :: "string option"
  max_retries :: int
  logger :: "log_entry list"
  gen_requests :: "prompt list"
  exec_requests :: "string option list"

definition log :: "log_entry \<Rightarrow> 'd agent_state \<Rightarrow> 'd agent_state" where
  "log entry st = st\<lparr>logger := logger st @ [entry]\<rparr>"

text \<open>
  Modelled from the spec: the three prompt builders, which are not among the sources, put
  the history and the output type of the state, and the code and the diagnostic they are
  given, into the request.
\<close>

definition get_chat_prompt_for_sql :: "'d agent_state \<Rightarrow> prompt" where
  "get_chat_prompt_for_sql st = ChatPromptForSql (memory st) (output_type st)"

definition get_correct_error_prompt_for_sql ::
  "'d agent_state \<Rightarrow> string option \<Rightarrow> string \<Rightarrow> prompt" where
  "get_correct_error_prompt_for_sql st code error_trace =
     CorrectErrorPromptForSql (memory st) (output_type st) code error_trace"

definition get_correct_output_type_error_prompt ::
  "'d agent_state \<Rightarrow> string option \<Rightarrow> string \<Rightarrow> prompt" where
  "get_correct_output_type_error_prompt st code error_trace =
     CorrectOutputTypeErrorPrompt (memory st) (output_type st) code error_trace"

section \<open>Data sources and datasets\<close>

text \<open>The connection and source models of \<^verbatim>\<open>data_loader/semantic_layer_schema.py\<close>.\<close>

record SQLConnectionConfig =
  host :: string
  port :: int
  database :: string
  user :: string
  password :: string

record Source =
  source_type :: string
  path :: "string option"
  connection :: "SQLConnectionConfig option"
  table :: "string option"

text \<open>
  \<^verbatim>\<open>self.connection == source2.connection\<close> on two optional connections. Two connection
  objects are compared by \<^verbatim>\<open>SQLConnectionConfig.__eq__\<close>, field by field; \<^verbatim>\<open>None == None\<close> is
  true; a connection object compared with \<^verbatim>\<open>None\<close> reaches \<^verbatim>\<open>__eq__\<close> with \<^verbatim>\<open>None\<close> as one
  side, whose \<^verbatim>\<open>host\<close> attribute does not exist.
\<close>

definition SQLConnectionConfig_eq :: "SQLConnectionConfig \<Rightarrow> SQLConnectionConfig \<Rightarrow> bool" where
  "SQLConnectionConfig_eq a b =
     (host a = host b \<and> port a = port b \<and> database a = database b
      \<and> user a = user b \<and> password a = password b)"

fun connection_eq :: "SQLConnectionConfig option \<Rightarrow> SQLConnectionConfig option \<Rightarrow> exn + bool" where
  "connection_eq None None = Inr True"
| "connection_eq (Some a) (Some b) = Inr (SQLConnectionConfig_eq a b)"
| "connection_eq _ _ = Inl (Exn AttributeError ''NoneType object has no attribute host'')"

text \<open>
  \<^verbatim>\<open>Source.is_compatible_source\<close>. The constants \<^verbatim>\<open>LOCAL_SOURCE_TYPES\<close> and
  \<^verbatim>\<open>REMOTE_SOURCE_TYPES\<close> of \<^verbatim>\<open>pandasai.constants\<close> are not among the sources; they are the
  parameters \<open>local_types\<close> and \<open>remote_types\<close>.
\<close>

definition is_compatible_source ::
  "string list \<Rightarrow> string list \<Rightarrow> Source \<Rightarrow> Source \<Rightarrow> exn + bool" where
  "is_compatible_source local_types remote_types self source2 =
     (if source_type self \<in> set local_types \<and> source_type source2 \<in> set local_types then Inr True
      else if source_type self \<in> set remote_types \<and> source_type source2 \<in> set remote_types
        then connection_eq (connection self) (connection source2)
      else Inr False)"

text \<open>
  A dataset as \<^verbatim>\<open>agent/base.py\<close> reads it: \<^verbatim>\<open>df.schema.name\<close>, \<^verbatim>\<open>df.schema.source\<close>,
  \<^verbatim>\<open>df._loader.source\<close>, whether it has a \<^verbatim>\<open>query_builder\<close> (then with the value of
  \<^verbatim>\<open>query_builder._get_table_expression()\<close>) and its own \<^verbatim>\<open>execute_sql_query\<close> method,
  which answers a query with a table of type \<open>'t\<close> or raises.
\<close>

record 't dataset =
  schema_name :: string
  schema_source :: "Source option"
  loader_source :: Source
  query_builder :: "string option"
  df_execute_sql_query :: "string \<Rightarrow> exn + 't"

section \<open>The query router\<close>

text \<open>
  Modelled from the spec: \<^verbatim>\<open>DuckDBConnectionManager\<close> and
  \<^verbatim>\<open>SQLParser.replace_table_and_column_names\<close> are not among the sources. The manager is the
  shared in-process engine of the spec: \<^verbatim>\<open>register\<close> records a dataset under a name, and
  \<^verbatim>\<open>sql\<close> answers a query over what is registered (\<open>duckdb_sql\<close>) or raises. The rewriting
  is a parameter: it returns the query rewritten over the table mapping, or raises.
\<close>

record 't sql_backend =
  replace_table_and_column_names :: "string \<Rightarrow> (string \<rightharpoonup> string) \<Rightarrow> exn + string"
  duckdb_sql :: "(string \<times> 't dataset) list \<Rightarrow> string \<Rightarrow> exn + 't"

text \<open>The calls that reach a physical engine, in the order in which they are made.\<close>

datatype sql_event =
    Registered string
  | RanDuckDB string
  | RanDelegate string string

fun is_run :: "sql_event \<Rightarrow> bool" where
  "is_run (Registered _) = False"
| "is_run (RanDuckDB _) = True"
| "is_run (RanDelegate _ _) = True"

text \<open>
  One iteration of the loop over \<^verbatim>\<open>self._state.dfs\<close>; the loop variables are the table
  mapping, the dataset whose bound method \<^verbatim>\<open>df_executor\<close> is, and the registrations made.
\<close>

definition router_step ::
  "(string \<rightharpoonup> string) \<times> 't dataset option \<times> (string \<times> 't dataset) list \<Rightarrow> 't dataset
   \<Rightarrow> (string \<rightharpoonup> string) \<times> 't dataset option \<times> (string \<times> 't dataset) list" where
  "router_step vars df =
     (case vars of (table_mapping, df_executor, registered) \<Rightarrow>
        (case query_builder df of
           Some table_expression \<Rightarrow>
             (table_mapping(schema_name df \<mapsto> table_expression), Some df, registered)
         | None \<Rightarrow> (table_mapping, df_executor, registered @ [(schema_name df, df)])))"

definition execute_sql_query ::
  "'t sql_backend \<Rightarrow> 't dataset list \<Rightarrow> string \<Rightarrow> (exn + 't) \<times> sql_event list" where
  "execute_sql_query be datasets query =
     (if datasets = [] then
        (Inl (Exn ValueError ''No DataFrames available to register for query execution.''), [])
      else
        (case foldl router_step (Map.empty, None, []) datasets of
           (table_mapping, df_executor, registered) \<Rightarrow>
             (let events = map (\<lambda>r. Registered (fst r)) registered in
              case replace_table_and_column_names be query table_mapping of
                Inl e \<Rightarrow> (Inl e, events)
              | Inr final_query \<Rightarrow>
                  (case df_executor of
                     None \<Rightarrow> (duckdb_sql be registered final_query, events @ [RanDuckDB final_query])
                   | Some d \<Rightarrow>
                       (df_execute_sql_query d final_query,
                        events @ [RanDelegate (schema_name d) final_query])))))"

section \<open>The orchestrator\<close>

text \<open>
  Modelled from the spec: \<^verbatim>\<open>CodeGenerator\<close>, \<^verbatim>\<open>CodeExecutor\<close>, \<^verbatim>\<open>Sandbox\<close> and
  \<^verbatim>\<open>ResponseParser\<close> are not among the sources. They are the external collaborators of the
  orchestrator: each is a function that answers a call with a value or raises. The code
  generator answers the \<open>k\<close>-th request with validated program text or an error, and may
  record the raw program text it received in \<^verbatim>\<open>last_code_generated\<close> (\<open>recorded\<close>: the
  "most recently generated program text" of the conversation state). The executors get
  the program and the one capability injected into its namespace, the query function.
\<close>

record gen_result =
  outcome :: "exn + string"
  recorded :: "string option"

record ('t, 'v, 'r) env =
  backend :: "'t sql_backend"
  code_generator :: "nat \<Rightarrow> prompt \<Rightarrow> gen_result"
  sandbox :: "(nat \<Rightarrow> (string \<Rightarrow> exn + 't) \<Rightarrow> string option \<Rightarrow> exn + 'v) option"
  code_executor :: "nat \<Rightarrow> (string \<Rightarrow> exn + 't) \<Rightarrow> string option \<Rightarrow> exn + 'v"
  response_parser :: "'v \<Rightarrow> string option \<Rightarrow> exn + 'r"

text \<open>
  Modelled from the spec: one call of \<^verbatim>\<open>CodeGenerator.generate_code\<close>. The request is added
  to the list of requests, the generator's answer to it is returned or raised, and the
  program text the generator recorded, if any, becomes the last generated code.
\<close>

definition code_generator_generate_code ::
  "('t, 'v, 'r) env \<Rightarrow> prompt \<Rightarrow> 'd agent_state \<Rightarrow> (exn + string) \<times> 'd agent_state" where
  "code_generator_generate_code env p st =
     (let r = code_generator env (length (gen_requests st)) p in
      (outcome r,
       st\<lparr>gen_requests := gen_requests st @ [p],
          last_code_generated :=
            (case recorded r of None \<Rightarrow> last_code_generated st | Some c \<Rightarrow> Some c)\<rparr>))"

text \<open>\<^verbatim>\<open>Agent.generate_code\<close>; \<^verbatim>\<open>last_prompt_used\<close> is assigned only when the generator returns.\<close>

definition generate_code ::
  "('t, 'v, 'r) env \<Rightarrow> string \<Rightarrow> 'd agent_state \<Rightarrow> (exn + string) \<times> 'd agent_state" where
  "generate_code env query st =
     (let st1 = st\<lparr>memory := memory st @ [(query, True)]\<rparr>;
          st2 = log LogGeneratingNewCode st1;
          p = get_chat_prompt_for_sql st2
      in case code_generator_generate_code env p st2 of
           (Inl e, st3) \<Rightarrow> (Inl e, st3)
         | (Inr code, st3) \<Rightarrow> (Inr code, st3\<lparr>last_prompt_used := Some p\<rparr>))"

text \<open>
  \<^verbatim>\<open>Agent._regenerate_code_after_error\<close>. \<open>handled\<close> is the exception being handled where
  the method is called, which \<^verbatim>\<open>traceback.format_exc()\<close> renders.
\<close>

definition regenerate_code_after_error ::
  "('t, 'v, 'r) env \<Rightarrow> string option \<Rightarrow> exn \<Rightarrow> exn option \<Rightarrow> 'd agent_state
   \<Rightarrow> (exn + string) \<times> 'd agent_state" where
  "regenerate_code_after_error env code error handled st =
     (let error_trace = format_exc handled;
          st1 = log (LogExecutionFailed error_trace) st;
          p = (if isinstance error InvalidLLMOutputType
               then get_correct_output_type_error_prompt st1 code error_trace
               else get_correct_error_prompt_for_sql st1 code error_trace)
      in code_generator_generate_code env p st1)"

text \<open>
  \<^verbatim>\<open>Agent.execute_code\<close>: the program runs in the sandbox when there is one, in the code
  executor otherwise, with \<^verbatim>\<open>_execute_sql_query\<close> over the session's datasets injected.
\<close>

definition execute_code ::
  "('t, 'v, 'r) env \<Rightarrow> string option \<Rightarrow> ('t dataset) agent_state
   \<Rightarrow> (exn + 'v) \<times> ('t dataset) agent_state" where
  "execute_code env code st =
     (let st1 = log (LogExecutingCode code) st;
          query_fn = (\<lambda>q. fst (execute_sql_query (backend env) (dfs st1) q));
          st2 = st1\<lparr>exec_requests := exec_requests st1 @ [code]\<rparr>
      in case sandbox env of
           Some sandbox_execute \<Rightarrow> (sandbox_execute (length (exec_requests st1)) query_fn code, st2)
         | None \<Rightarrow> (code_executor env (length (exec_requests st1)) query_fn code, st2))"

text \<open>
  The \<^verbatim>\<open>while\<close> loop of \<^verbatim>\<open>Agent.generate_code_with_retries\<close>, entered in the handler of the
  first failure \<open>e0\<close>. Every call of \<^verbatim>\<open>_regenerate_code_after_error\<close> is made while \<open>e0\<close> is the
  exception being handled: when the inner \<^verbatim>\<open>except\<close> block is left, Python restores the
  exception of the enclosing handler. \<open>exception\<close> is the loop variable of that name. The
  result \<open>Inr None\<close> is the \<^verbatim>\<open>return None\<close> after the loop.
\<close>

function generation_retry_loop ::
  "('t, 'v, 'r) env \<Rightarrow> int \<Rightarrow> exn \<Rightarrow> exn \<Rightarrow> int \<Rightarrow> 'd agent_state
   \<Rightarrow> (exn + string option) \<times> 'd agent_state" where
  "generation_retry_loop env n e0 exception attempts st =
     (if attempts \<le> n then
        (case regenerate_code_after_error env (last_code_generated st) exception (Some e0) st of
           (Inr code, st1) \<Rightarrow> (Inr (Some code), st1)
         | (Inl e, st1) \<Rightarrow>
             (if attempts + 1 > n then (Inl e, log (LogMaxRetryExceeded e) st1)
              else generation_retry_loop env n e0 e (attempts + 1)
                     (log (LogRetryingGeneration (attempts + 1) n) st1)))
      else (Inr None, st))"
  by pat_completeness auto
termination
  by (relation "measure (\<lambda>(env, n, e0, exception, attempts, st). nat (n + 1 - attempts))") auto

definition generate_code_with_retries ::
  "('t, 'v, 'r) env \<Rightarrow> string \<Rightarrow> 'd agent_state \<Rightarrow> (exn + string option) \<times> 'd agent_state" where
  "generate_code_with_retries env query st =
     (case generate_code env query st of
        (Inr code, st1) \<Rightarrow> (Inr (Some code), st1)
      | (Inl e, st1) \<Rightarrow> generation_retry_loop env (max_retries st) e e 0 st1)"

text \<open>
  The \<^verbatim>\<open>while\<close> loop of \<^verbatim>\<open>Agent.execute_with_retries\<close>. \<open>execution_failed\<close> is its
  \<^verbatim>\<open>except Exception\<close> block, which is entered from a failure of \<^verbatim>\<open>execute_code\<close> and from
  a failure of the response parser alike. The regeneration is called inside that block: an
  exception it raises is not caught by the loop.
\<close>

function execution_retry_loop ::
  "('t, 'v, 'r) env \<Rightarrow> int \<Rightarrow> string option \<Rightarrow> int \<Rightarrow> ('t dataset) agent_state
   \<Rightarrow> (exn + 'r option) \<times> ('t dataset) agent_state"
and execution_failed ::
  "('t, 'v, 'r) env \<Rightarrow> int \<Rightarrow> string option \<Rightarrow> int \<Rightarrow> exn \<Rightarrow> ('t dataset) agent_state
   \<Rightarrow> (exn + 'r option) \<times> ('t dataset) agent_state" where
  "execution_retry_loop env n code attempts st =
     (if attempts \<le> n then
        (case execute_code env code st of
           (Inr result, st1) \<Rightarrow>
             (case response_parser env result code of
                Inr response \<Rightarrow> (Inr (Some response), st1)
              | Inl e \<Rightarrow> execution_failed env n code attempts e st1)
         | (Inl e, st1) \<Rightarrow> execution_failed env n code attempts e st1)
      else (Inr None, st))"
| "execution_failed env n code attempts e st =
     (if attempts + 1 > n then (Inl e, log (LogMaxRetriesReached e) st)
      else
        (case regenerate_code_after_error env code e (Some e)
                (log (LogRetryingExecution (attempts + 1) n) st) of
           (Inr code', st1) \<Rightarrow> execution_retry_loop env n (Some code') (attempts + 1) st1
         | (Inl e', st1) \<Rightarrow> (Inl e', st1)))"
  by pat_completeness auto
termination
  by (relation "measure (\<lambda>x. case x of
          Inl (env, n, code, attempts, st) \<Rightarrow> 2 * nat (n + 1 - attempts)
        | Inr (env, n, code, attempts, e, st) \<Rightarrow> 2 * nat (n + 1 - attempts) - 1)") auto

definition execute_with_retries ::
  "('t, 'v, 'r) env \<Rightarrow> string option \<Rightarrow> ('t dataset) agent_state
   \<Rightarrow> (exn + 'r option) \<times> ('t dataset) agent_state" where
  "execute_with_retries env code st = execution_retry_loop env (max_retries st) code 0 st"

text \<open>
  What \<^verbatim>\<open>_process_query\<close> returns: the parsed response of a successful turn, or the
  \<^verbatim>\<open>ErrorResponse\<close> object built by \<^verbatim>\<open>_handle_exception\<close>.
\<close>

datatype 'r response =
    ParsedResponse 'r
  | ErrorResponse (last_code_executed_of: "string option") (error_of: string)

definition handle_exception ::
  "string option \<Rightarrow> exn \<Rightarrow> 'd agent_state \<Rightarrow> 'r response \<times> 'd agent_state" where
  "handle_exception code handled st =
     (let error_message = format_exc (Some handled) in
      (ErrorResponse code error_message, log (LogProcessingFailed error_message) st))"

text \<open>
  Modelled from the spec: \<^verbatim>\<open>AgentState.assign_prompt_id\<close> is not among the sources; it gives
  the turn its correlation identifier, here the next number.
\<close>

definition assign_prompt_id :: "'d agent_state \<Rightarrow> 'd agent_state" where
  "assign_prompt_id st = st\<lparr>prompt_id := Suc (prompt_id st)\<rparr>"

text \<open>
  \<^verbatim>\<open>Agent._process_query\<close>. \<^verbatim>\<open>UserQuery\<close> is not among the sources; the query stands for its
  text. The two log calls stand before the \<^verbatim>\<open>try\<close>; the second reads \<^verbatim>\<open>config.llm.type\<close>. In the handler of \<^verbatim>\<open>CodeExecutionError\<close> the local variable \<^verbatim>\<open>code\<close> is
  read: it is bound only when \<^verbatim>\<open>generate_code_with_retries\<close> has returned.
\<close>

definition process_query ::
  "('t, 'v, 'r) env \<Rightarrow> string \<Rightarrow> string option \<Rightarrow> ('t dataset) agent_state
   \<Rightarrow> (exn + 'r response option) \<times> ('t dataset) agent_state" where
  "process_query env query out_type st =
     (let st1 = log (LogQuestion query) st in
      case llm st1 of
        None \<Rightarrow> (Inl (Exn AttributeError ''NoneType object has no attribute type''), st1)
      | Some llm_type \<Rightarrow>
          (let st2 = log (LogRunning llm_type) st1;
               st3 = st2\<lparr>output_type := out_type\<rparr>;
               st4 = assign_prompt_id st3
           in case generate_code_with_retries env query st4 of
                (Inl e, st5) \<Rightarrow>
                  (if isinstance e CodeExecutionError
                   then (Inl (Exn UnboundLocalError
                           ''cannot access local variable code where it is not associated with a value''),
                         st5)
                   else (Inl e, st5))
              | (Inr code, st5) \<Rightarrow>
                  (case execute_with_retries env code st5 of
                     (Inr result, st6) \<Rightarrow>
                       (Inr (map_option ParsedResponse result), log LogResponseGenerated st6)
                   | (Inl e, st6) \<Rightarrow>
                       (if isinstance e CodeExecutionError
                        then (case handle_exception code e st6 of
                                (response, st7) \<Rightarrow> (Inr (Some response), st7))
                        else (Inl e, st6)))))"

definition clear_memory :: "'d agent_state \<Rightarrow> 'd agent_state" where
  "clear_memory st = st\<lparr>memory := []\<rparr>"

definition add_message :: "string \<Rightarrow> bool \<Rightarrow> 'd agent_state \<Rightarrow> 'd agent_state" where
  "add_message message is_user st = st\<lparr>memory := memory st @ [(message, is_user)]\<rparr>"

definition start_new_conversation :: "'d agent_state \<Rightarrow> 'd agent_state" where
  "start_new_conversation st = clear_memory st"

definition chat ::
  "('t, 'v, 'r) env \<Rightarrow> string \<Rightarrow> string option \<Rightarrow> ('t dataset) agent_state
   \<Rightarrow> (exn + 'r response option) \<times> ('t dataset) agent_state" where
  "chat env query out_type st =
     (if llm st = None
      then (Inl (Exn ValueError ''PandasAI API key does not include LLM credits.''), st)
      else process_query env query out_type (start_new_conversation st))"

definition follow_up ::
  "('t, 'v, 'r) env \<Rightarrow> string \<Rightarrow> string option \<Rightarrow> ('t dataset) agent_state
   \<Rightarrow> (exn + 'r response option) \<times> ('t dataset) agent_state" where
  "follow_up env query out_type st = process_query env query out_type st"

text \<open>The three read-only properties of the agent.\<close>

definition last_generated_code :: "'d agent_state \<Rightarrow> string option" where
  "last_generated_code st = last_code_generated st"

definition last_code_executed :: "'d agent_state \<Rightarrow> string option" where
  "last_code_executed st = last_code_generated st"

definition last_prompt_used_property :: "'d agent_state \<Rightarrow> prompt option" where
  "last_prompt_used_property st = last_prompt_used st"

section \<open>Session start\<close>

definition source_of :: "'t dataset \<Rightarrow> Source" where
  "source_of df = (case schema_source df of Some s \<Rightarrow> s | None \<Rightarrow> loader_source df)"

text \<open>
  Modelled from the spec: \<^verbatim>\<open>BaseQueryBuilder.check_compatible_sources\<close> is not among the
  sources. The spec asks for "mutually compatible sources (all-local or
  all-remote-with-identical-connection)": every source is of a local type, or every source
  is of a remote type and all connections are the same.
\<close>

definition check_compatible_sources :: "string list \<Rightarrow> string list \<Rightarrow> Source list \<Rightarrow> bool" where
  "check_compatible_sources local_types remote_types sources =
     (list_all (\<lambda>s. source_type s \<in> set local_types) sources
      \<or> (list_all (\<lambda>s. source_type s \<in> set remote_types) sources
         \<and> list_all (\<lambda>a. list_all (\<lambda>b. connection a = connection b) sources) sources))"

text \<open>The first argument of \<^verbatim>\<open>Agent.__init__\<close> is one dataset or a list of datasets.\<close>

datatype 'd dfs_argument = OneDataset 'd | DatasetList "'d list"

text \<open>
  Modelled from the spec: \<^verbatim>\<open>AgentState.initialize\<close> is not among the sources; the session
  starts with its datasets, the configuration, and an empty conversation state.
\<close>

definition initial_state :: "'d list \<Rightarrow> string option \<Rightarrow> int \<Rightarrow> 'd agent_state" where
  "initial_state datasets config_llm config_max_retries =
     \<lparr>dfs = datasets, memory = [], last_code_generated = None, last_prompt_used = None,
      output_type = None, prompt_id = 0, llm = config_llm, max_retries = config_max_retries,
      logger = [], gen_requests = [], exec_requests = []\<rparr>"

definition agent_init ::
  "string list \<Rightarrow> string list \<Rightarrow> ('t dataset) dfs_argument \<Rightarrow> string option \<Rightarrow> int
   \<Rightarrow> exn + ('t dataset) agent_state" where
  "agent_init local_types remote_types dfs_arg config_llm config_max_retries =
     (case dfs_arg of
        DatasetList datasets \<Rightarrow>
          (if \<not> check_compatible_sources local_types remote_types (map source_of datasets)
           then Inl (Exn ValueError ''The sources of these datasets are not compatibles'')
           else Inr (initial_state datasets config_llm config_max_retries))
      | OneDataset df \<Rightarrow> Inr (initial_state [df] config_llm config_max_retries))"

section \<open>Schema validation\<close>

text \<open>
  The fields of \<^verbatim>\<open>Column\<close>, \<^verbatim>\<open>Relation\<close> and \<^verbatim>\<open>SemanticLayerSchema\<close> that the schema's
  model validator reads (\<^verbatim>\<open>from_\<close> is \<open>rel_from\<close>, \<^verbatim>\<open>to\<close> is \<open>rel_to\<close>).
\<close>

record Column =
  col_name :: string
  col_expression :: "string option"

record Relation =
  rel_from :: string
  rel_to :: string

record SemanticLayerSchema =
  name :: string
  source :: "Source option"
  view :: "bool option"
  columns :: "Column list option"
  relations :: "Relation list option"
  group_by :: "string list option"

definition word_char :: "char \<Rightarrow> bool" where
  "word_char c = (c \<in> set ''abcdefghijklmnopqrstuvwxyzABCDEFGHIJKLMNOPQRSTUVWXYZ0123456789_'')"

text \<open>
  \<^verbatim>\<open>re.match(r"^[a-zA-Z0-9_]+\.[a-zA-Z0-9_]+$", s)\<close>: two non-empty runs of word characters
  with one dot between them; \<^verbatim>\<open>$\<close> also matches before one newline that ends the string.
\<close>

definition is_view_column_name :: "string \<Rightarrow> bool" where
  "is_view_column_name s =
     (let body = (if s \<noteq> [] \<and> last s = CHR 0x0A then butlast s else s) in
      takeWhile word_char body \<noteq> []
      \<and> (case dropWhile word_char body of
            [] \<Rightarrow> False
          | c # w2 \<Rightarrow> c = CHR ''.'' \<and> w2 \<noteq> [] \<and> list_all word_char w2))"

text \<open>\<^verbatim>\<open>column_name.split(".")[0]\<close>\<close>

definition table_part :: "string \<Rightarrow> string" where
  "table_part column_name = takeWhile (\<lambda>c. c \<noteq> CHR ''.'') column_name"

text \<open>Python's truth value of an optional list and of an optional string.\<close>

definition truthy :: "'a list option \<Rightarrow> bool" where
  "truthy v = (case v of None \<Rightarrow> False | Some xs \<Rightarrow> xs \<noteq> [])"

text \<open>
  \<^verbatim>\<open>validate_underscore_name_format\<close> of \<^verbatim>\<open>pandasai.helpers.path\<close> is not among the sources;
  it is the parameter \<open>name_format_ok\<close>.
\<close>

definition validate_name :: "(string \<Rightarrow> bool) \<Rightarrow> SemanticLayerSchema \<Rightarrow> exn + unit" where
  "validate_name name_format_ok self =
     (if name self = [] \<or> \<not> name_format_ok (name self)
      then Inl (Exn ValueError ''Dataset name must be lowercase and use underscores instead of spaces.'')
      else Inr ())"

fun group_by_loop :: "string list \<Rightarrow> Column list \<Rightarrow> exn + unit" where
  "group_by_loop group_by_set [] = Inr ()"
| "group_by_loop group_by_set (col # cols) =
     (if truthy (col_expression col) \<and> col_name col \<in> set group_by_set
      then Inl (Exn ValueError ''Column cannot be in group_by because it has an aggregation expression.'')
      else if \<not> truthy (col_expression col) \<and> col_name col \<notin> set group_by_set
      then Inl (Exn ValueError ''Column must either be in group_by or have an aggregation expression.'')
      else group_by_loop group_by_set cols)"

definition validate_group_by_columns :: "SemanticLayerSchema \<Rightarrow> exn + unit" where
  "validate_group_by_columns self =
     (case (group_by self, columns self) of
        (Some group_by_list, Some cols) \<Rightarrow>
          (if group_by_list = [] \<or> cols = [] then Inr () else group_by_loop group_by_list cols)
      | _ \<Rightarrow> Inr ())"

definition validate_columns_relations :: "SemanticLayerSchema \<Rightarrow> exn + unit" where
  "validate_columns_relations self =
     (let column_names = (case columns self of None \<Rightarrow> [] | Some cs \<Rightarrow> map col_name cs);
          tables_names_in_columns = remdups (map table_part column_names)
      in
      if length column_names \<noteq> length (remdups column_names)
      then Inl (Exn ValueError ''Column names must be unique. Duplicate names found.'')
      else if source self \<noteq> None \<and> view self = Some True
      then Inl (Exn ValueError ''Only one of source or view can be defined.'')
      else if source self = None \<and> view self \<noteq> Some True
      then Inl (Exn ValueError ''Either source or view must be defined.'')
      else if view self = Some True then
        (let column_names_in_relations =
               remdups (concat (map (\<lambda>r. [rel_from r, rel_to r])
                                    (case relations self of None \<Rightarrow> [] | Some rs \<Rightarrow> rs)));
             tables_names_in_relations = remdups (map table_part column_names_in_relations);
             uncovered_tables =
               filter (\<lambda>t. t \<notin> set tables_names_in_relations) tables_names_in_columns
         in
         if \<not> truthy (columns self)
         then Inl (Exn ValueError ''A view must have at least one column defined.'')
         else if \<not> list_all is_view_column_name column_names
         then Inl (Exn ValueError ''All columns in a view must be in the format [dataset_name].[column_name].'')
         else if \<not> list_all is_view_column_name column_names_in_relations
         then Inl (Exn ValueError ''All params from and to in the relations must be in the format [dataset_name].[column_name].'')
         else if uncovered_tables \<noteq> [] \<and> length tables_names_in_columns > 1
         then Inl (Exn ValueError ''No relations provided for the following tables.'')
         else Inr ())
      else if list_ex is_view_column_name column_names
      then Inl (Exn ValueError ''All columns in a table must be in the format [column_name].'')
      else Inr ())"

text \<open>The model validator \<^verbatim>\<open>validate_schema\<close>: the three checks in their order.\<close>

definition validate_schema :: "(string \<Rightarrow> bool) \<Rightarrow> SemanticLayerSchema \<Rightarrow> exn + SemanticLayerSchema" where
  "validate_schema name_format_ok self =
     (case validate_name name_format_ok self of
        Inl e \<Rightarrow> Inl e
      | Inr _ \<Rightarrow>
          (case validate_group_by_columns self of
             Inl e \<Rightarrow> Inl e
           | Inr _ \<Rightarrow>
               (case validate_columns_relations self of
                  Inl e \<Rightarrow> Inl e
                | Inr _ \<Rightarrow> Inr self)))"

section \<open>Table-name rewriting\<close>

text \<open>
  Modelled from the spec: \<^verbatim>\<open>CodeCleaner._replace_table_names\<close> is not among the sources; only
  its tests are, which call it with the query, the list of the tables the query references
  and the table mapping. The SQL-aware parse that the spec asks for ("a dedicated SQL-aware
  parse, not a naive substring match") is not among the sources either. It is the parameter
  \<open>sql_parse\<close>, which cuts the text of a query into fragments: a fragment is a reference to a
  table, or it is other text (a keyword, a column, an alias, a string literal, a comment).
\<close>

datatype sql_fragment = TableRef string | OtherText string

fun fragment_text :: "sql_fragment \<Rightarrow> string" where
  "fragment_text (TableRef t) = t"
| "fragment_text (OtherText s) = s"

text \<open>
  Modelled from the spec: "replace every referenced table identifier with its entry from the
  current TableMapping. Any referenced table not present in the mapping is a hard rejection
  (MaliciousQuery)". Only fragments that are references to tables are rewritten. The spec
  does not give the message of the error; here it is the name of the table without an entry.
\<close>

definition rewrite_fragment ::
  "string list \<Rightarrow> (string \<rightharpoonup> string) \<Rightarrow> sql_fragment \<Rightarrow> string" where
  "rewrite_fragment table_names allowed_table_names fragment =
     (case fragment of
        TableRef t \<Rightarrow>
          (if t \<in> set table_names
           then (case allowed_table_names t of Some expression \<Rightarrow> expression | None \<Rightarrow> t)
           else t)
      | OtherText s \<Rightarrow> s)"

definition replace_table_names ::
  "(string \<Rightarrow> sql_fragment list) \<Rightarrow> string \<Rightarrow> string list \<Rightarrow> (string \<rightharpoonup> string)
   \<Rightarrow> exn + string" where
  "replace_table_names sql_parse sql_query table_names allowed_table_names =
     (case filter (\<lambda>t. allowed_table_names t = None) table_names of
        t # _ \<Rightarrow> Inl (Exn MaliciousQueryError t)
      | [] \<Rightarrow>
          Inr (concat (map (rewrite_fragment table_names allowed_table_names)
                           (sql_parse sql_query))))"

section \<open>Concrete sessions\<close>

text \<open>A local dataset, a session over it, and collaborators with fixed answers.\<close>

definition sales_source :: Source where
  "sales_source = \<lparr>source_type = ''csv'', path = Some ''sales.csv'', connection = None, table = None\<rparr>"

definition sales_df :: "string dataset" where
  "sales_df =
     \<lparr>schema_name = ''sales'', schema_source = Some sales_source, loader_source = sales_source,
      query_builder = None,
      df_execute_sql_query = (\<lambda>q. Inl (Exn AttributeError ''no execute_sql_query''))\<rparr>"

definition plain_backend :: "string sql_backend" where
  "plain_backend =
     \<lparr>replace_table_and_column_names = (\<lambda>q m. Inr q),
      duckdb_sql = (\<lambda>registered q. Inr (''rows of '' @ q))\<rparr>"

text \<open>A code generator whose every program is rejected for its import of \<^verbatim>\<open>os\<close>.\<close>

definition rejecting_env :: "(string, string, string) env" where
  "rejecting_env =
     \<lparr>backend = plain_backend,
      code_generator = (\<lambda>k p. \<lparr>outcome = Inl (Exn BadImportError ''os''), recorded = Some ''import os''\<rparr>),
      sandbox = None,
      code_executor = (\<lambda>k query_fn code. Inr ''result''),
      response_parser = (\<lambda>v code. Inr v)\<rparr>"

definition zero_budget_session :: "(string dataset) agent_state" where
  "zero_budget_session = initial_state [sales_df] (Some ''openai'') 0"

text \<open>A dataset behind a remote connector, with a query builder and its own executor.\<close>

definition customers_source :: Source where
  "customers_source =
     \<lparr>source_type = ''postgres'', path = None,
      connection = Some \<lparr>host = ''db'', port = 5432, database = ''shop'', user = ''u'', password = ''p''\<rparr>,
      table = Some ''customers''\<rparr>"

definition customers_df :: "string dataset" where
  "customers_df =
     \<lparr>schema_name = ''customers'', schema_source = Some customers_source,
      loader_source = customers_source, query_builder = Some ''customers'',
      df_execute_sql_query = (\<lambda>q. Inr (''remote rows of '' @ q))\<rparr>"

text \<open>A schema of a table over the local source, and a name format for it.\<close>

definition simple_name_format :: "string \<Rightarrow> bool" where
  "simple_name_format n = list_all word_char n"

definition sales_schema :: SemanticLayerSchema where
  "sales_schema =
     \<lparr>name = ''sales'', source = Some sales_source, view = None,
      columns = Some [\<lparr>col_name = ''amount'', col_expression = None\<rparr>],
      relations = None, group_by = None\<rparr>"

text \<open>Values for the two tables of source types, for the concrete sessions.\<close>

definition example_local_types :: "string list" where
  "example_local_types = [''csv'', ''parquet'']"

definition example_remote_types :: "string list" where
  "example_remote_types = [''mysql'', ''postgres'']"

text \<open>
  A session in which an earlier conversation has left a message and a generated program, and
  a code generator whose model cannot be reached.
\<close>

definition previous_session :: "(string dataset) agent_state" where
  "previous_session =
     (initial_state [sales_df] (Some ''openai'') 0)
       \<lparr>memory := [(''how many rows'', True)],
        last_code_generated := Some ''SELECT COUNT(*) FROM sales''\<rparr>"

definition api_down_env :: "(string, string, string) env" where
  "api_down_env =
     \<lparr>backend = plain_backend,
      code_generator =
        (\<lambda>k p. \<lparr>outcome = Inl (Exn PandasAIApiCallError ''Request failed''), recorded = None\<rparr>),
      sandbox = None,
      code_executor = (\<lambda>k query_fn code. Inr ''result''),
      response_parser = (\<lambda>v code. Inr v)\<rparr>"

text \<open>
  A code generator that answers every request with a new program, and an executor in which
  every program fails; a session that allows one retry.
\<close>

definition crashing_env :: "(string, string, string) env" where
  "crashing_env =
     \<lparr>backend = plain_backend,
      code_generator =
        (\<lambda>k p. \<lparr>outcome = Inr (if k = 0 then ''result = run(1)'' else ''result = run(2)''),
                 recorded = Some (if k = 0 then ''result = run(1)'' else ''result = run(2)'')\<rparr>),
      sandbox = None,
      code_executor = (\<lambda>k query_fn code. Inl (Exn CodeExecutionError ''division by zero'')),
      response_parser = (\<lambda>v code. Inr v)\<rparr>"

definition one_retry_session :: "(string dataset) agent_state" where
  "one_retry_session = initial_state [sales_df] (Some ''openai'') 1"

text \<open>
  Collaborators that fail once for want of a connection: the first request to the model and
  the first execution raise \<^verbatim>\<open>PandasAIApiCallError\<close>, every later call succeeds. The session
  has the budget of three retries.
\<close>

definition flaky_env :: "(string, string, string) env" where
  "flaky_env =
     \<lparr>backend = plain_backend,
      code_generator =
        (\<lambda>k p. if k = 0
                then \<lparr>outcome = Inl (Exn PandasAIApiCallError ''Request failed''), recorded = None\<rparr>
                else \<lparr>outcome = Inr ''result = run()'', recorded = Some ''result = run()''\<rparr>),
      sandbox = None,
      code_executor =
        (\<lambda>k query_fn code. if k = 0 then Inl (Exn PandasAIApiCallError ''connector unreachable'')
                            else Inr ''42''),
      response_parser = (\<lambda>v code. Inr v)\<rparr>"

definition default_session :: "(string dataset) agent_state" where
  "default_session = initial_state [sales_df] (Some ''openai'') 3"

text \<open>
  A code generator whose first program is rejected for a table outside the session, whose
  second program is rejected for its import, and whose later programs are accepted.
\<close>

definition two_faults_env :: "(string, string, string) env" where
  "two_faults_env =
     \<lparr>backend = plain_backend,
      code_generator =
        (\<lambda>k p. if k = 0
                then \<lparr>outcome = Inl (Exn MaliciousQueryError ''orders''),
                      recorded = Some ''result = query(orders)''\<rparr>
                else if k = 1
                then \<lparr>outcome = Inl (Exn BadImportError ''os''), recorded = Some ''import os''\<rparr>
                else \<lparr>outcome = Inr ''result = run()'', recorded = Some ''result = run()''\<rparr>),
      sandbox = None,
      code_executor = (\<lambda>k query_fn code. Inr ''42''),
      response_parser = (\<lambda>v code. Inr v)\<rparr>"

text \<open>
  The same dataset with other source descriptors, and the same session over such datasets;
  they serve to state that an operation does not consult the sources.
\<close>

definition with_sources ::
  "('t dataset \<Rightarrow> Source option \<times> Source) \<Rightarrow> 't dataset \<Rightarrow> 't dataset" where
  "with_sources f d = d\<lparr>schema_source := fst (f d), loader_source := snd (f d)\<rparr>"

definition session_with_sources ::
  "('t dataset \<Rightarrow> Source option \<times> Source) \<Rightarrow> ('t dataset) agent_state
   \<Rightarrow> ('t dataset) agent_state" where
  "session_with_sources f st = st\<lparr>dfs := map (with_sources f) (dfs st)\<rparr>"

text \<open>
  A second local dataset, and an assignment of sources that makes the first dataset local and
  the second one remote.
\<close>

definition returns_df :: "string dataset" where
  "returns_df = sales_df\<lparr>schema_name := ''returns''\<rparr>"

definition mixed_sources :: "string dataset \<Rightarrow> Source option \<times> Source" where
  "mixed_sources d =
     (if schema_name d = ''returns'' then (Some customers_source, customers_source)
      else (Some sales_source, sales_source))"

text \<open>
  An SQL-aware parse for the concrete queries. It reads the query character by character:
  a string literal in single quotes, a line comment and a block comment are other text, and
  so is every word, except the word that follows the keyword \<^verbatim>\<open>FROM\<close> or \<^verbatim>\<open>JOIN\<close>, which is a
  reference to a table.
\<close>

datatype scan_mode = InCode | InLiteral | InLineComment | InBlockComment

definition upper_char :: "char \<Rightarrow> char" where
  "upper_char c =
     (case map_of (zip ''abcdefghijklmnopqrstuvwxyz'' ''ABCDEFGHIJKLMNOPQRSTUVWXYZ'') c of
        Some u \<Rightarrow> u
      | None \<Rightarrow> c)"

definition is_table_keyword :: "string \<Rightarrow> bool" where
  "is_table_keyword w = (map upper_char w = ''FROM'' \<or> map upper_char w = ''JOIN'')"

definition is_blank :: "char \<Rightarrow> bool" where
  "is_blank c = (c = CHR '' '' \<or> c = CHR 0x0A \<or> c = CHR 0x09 \<or> c = CHR 0x0D)"

definition close_word :: "bool \<Rightarrow> string \<Rightarrow> sql_fragment list" where
  "close_word expect_table word =
     (if word = [] then [] else if expect_table then [TableRef word] else [OtherText word])"

definition after_word :: "bool \<Rightarrow> string \<Rightarrow> bool" where
  "after_word expect_table word =
     (if word = [] then expect_table else if expect_table then False else is_table_keyword word)"

fun sql_scan :: "scan_mode \<Rightarrow> bool \<Rightarrow> string \<Rightarrow> string \<Rightarrow> sql_fragment list" where
  "sql_scan mode expect_table word [] = close_word expect_table word"
| "sql_scan InCode expect_table word (c # cs) =
     (if word_char c then sql_scan InCode expect_table (word @ [c]) cs
      else close_word expect_table word @
        (if c = CHR 0x27 then OtherText [c] # sql_scan InLiteral False [] cs
         else
           (case cs of
              [] \<Rightarrow> [OtherText [c]]
            | d # ds \<Rightarrow>
                (if c = CHR ''-'' \<and> d = CHR ''-''
                 then OtherText [c, d] # sql_scan InLineComment (after_word expect_table word) [] ds
                 else if c = CHR ''/'' \<and> d = CHR ''*''
                 then OtherText [c, d] # sql_scan InBlockComment (after_word expect_table word) [] ds
                 else OtherText [c]
                      # sql_scan InCode (after_word expect_table word \<and> is_blank c) [] cs))))"
| "sql_scan InLiteral expect_table word (c # cs) =
     OtherText [c] # sql_scan (if c = CHR 0x27 then InCode else InLiteral) False [] cs"
| "sql_scan InLineComment expect_table word (c # cs) =
     OtherText [c] # sql_scan (if c = CHR 0x0A then InCode else InLineComment) expect_table [] cs"
| "sql_scan InBlockComment expect_table word (c # cs) =
     (case cs of
        [] \<Rightarrow> [OtherText [c]]
      | d # ds \<Rightarrow>
          (if c = CHR ''*'' \<and> d = CHR ''/''
           then OtherText [c, d] # sql_scan InCode expect_table [] ds
           else OtherText [c] # sql_scan InBlockComment expect_table [] cs))"

definition example_sql_parse :: "string \<Rightarrow> sql_fragment list" where
  "example_sql_parse sql_query = sql_scan InCode False [] sql_query"

section \<open>Basic facts about the orchestrator\<close>

declare execution_retry_loop.simps [simp del] execution_failed.simps [simp del]
  generation_retry_loop.simps [simp del]

text \<open>The definitions that evaluate a turn of a concrete session.\<close>

lemmas session_eval =
  process_query_def generate_code_with_retries_def generate_code_def
  generation_retry_loop.simps execute_with_retries_def execution_retry_loop.simps
  execution_failed.simps execute_code_def regenerate_code_after_error_def
  code_generator_generate_code_def handle_exception_def initial_state_def log_def Let_def
  get_chat_prompt_for_sql_def get_correct_error_prompt_for_sql_def
  get_correct_output_type_error_prompt_def assign_prompt_id_def isinstance_def format_exc_def

lemma log_fields [simp]:
  "gen_requests (log entry st) = gen_requests st"
  "exec_requests (log entry st) = exec_requests st"
  "memory (log entry st) = memory st"
  "last_code_generated (log entry st) = last_code_generated st"
  "max_retries (log entry st) = max_retries st"
  "output_type (log entry st) = output_type st"
  "llm (log entry st) = llm st"
  "dfs (log entry st) = dfs st"
  by (simp_all add: log_def)

lemma generator_requests:
  "gen_requests (snd (code_generator_generate_code env p st)) = gen_requests st @ [p]"
  by (simp add: code_generator_generate_code_def Let_def)

lemma generator_exec_requests:
  "exec_requests (snd (code_generator_generate_code env p st)) = exec_requests st"
  by (simp add: code_generator_generate_code_def Let_def)

lemma regenerate_exec_requests:
  "exec_requests (snd (regenerate_code_after_error env code error handled st)) = exec_requests st"
  by (simp add: regenerate_code_after_error_def Let_def generator_exec_requests)

lemma regenerate_gen_requests_length:
  "length (gen_requests (snd (regenerate_code_after_error env code error handled st)))
     = Suc (length (gen_requests st))"
  by (simp add: regenerate_code_after_error_def Let_def generator_requests)

lemma execute_code_requests:
  "exec_requests (snd (execute_code env code st)) = exec_requests st @ [code]"
  by (simp add: execute_code_def Let_def split: option.splits)

lemma execute_code_gen_requests:
  "gen_requests (snd (execute_code env code st)) = gen_requests st"
  by (simp add: execute_code_def Let_def log_def split: option.splits)

lemma generate_code_gen_requests_length:
  "length (gen_requests (snd (generate_code env query st))) = Suc (length (gen_requests st))"
  by (simp add: generate_code_def Let_def code_generator_generate_code_def log_def
      split: sum.splits)

subsection \<open>How often the retry loops call their collaborators\<close>

text \<open>
  The execution loop sends at most \<open>max_retries - attempts + 1\<close> programs to the executor.
  The induction follows the two mutually recursive functions of the loop.
\<close>

lemma execution_attempts_loop:
  "length (exec_requests (snd (execution_retry_loop env n code attempts st)))
     \<le> length (exec_requests st) + nat (n + 1 - attempts)"
  "length (exec_requests (snd (execution_failed env n code attempts e st)))
     \<le> length (exec_requests st) + nat (n - attempts)"
proof (induction env n code attempts st and env n code attempts e st
        rule: execution_retry_loop_execution_failed.induct)
  case (1 env n code attempts st)
  show ?case
  proof (cases "attempts \<le> n")
    case False
    then show ?thesis by (simp add: execution_retry_loop.simps)
  next
    case True
    obtain r st1 where ex: "execute_code env code st = (r, st1)"
      by (cases "execute_code env code st")
    have len: "length (exec_requests st1) = Suc (length (exec_requests st))"
      using execute_code_requests [of env code st] ex by simp
    have arith: "Suc (nat (n - attempts)) = nat (n + 1 - attempts)" using True by simp
    have failed: "length (exec_requests (snd (execution_failed env n code attempts e st1)))
          \<le> length (exec_requests st) + nat (n + 1 - attempts)"
      if "r = Inl e \<or> (\<exists>result. r = Inr result \<and> response_parser env result code = Inl e)" for e
    proof -
      have "length (exec_requests (snd (execution_failed env n code attempts e st1)))
          \<le> length (exec_requests st1) + nat (n - attempts)"
        using that 1 True ex by auto
      with len arith show ?thesis by simp
    qed
    show ?thesis
      using True ex len failed
      by (auto simp: execution_retry_loop.simps [of env n code attempts st] split: sum.splits)
  qed
next
  case (2 env n code attempts e st)
  show ?case
  proof (cases "attempts + 1 > n")
    case True
    then show ?thesis by (simp add: execution_failed.simps)
  next
    case False
    let ?st' = "log (LogRetryingExecution (attempts + 1) n) st"
    obtain r st1 where rg: "regenerate_code_after_error env code e (Some e) ?st' = (r, st1)"
      by (cases "regenerate_code_after_error env code e (Some e) ?st'")
    have len: "exec_requests st1 = exec_requests st"
      using regenerate_exec_requests [of env code e "Some e" ?st'] rg by simp
    show ?thesis
    proof (cases r)
      case (Inl e')
      with rg False len show ?thesis
        by (simp add: execution_failed.simps [of env n code attempts e st])
    next
      case (Inr code')
      have "length (exec_requests (snd (execution_retry_loop env n (Some code') (attempts + 1) st1)))
          \<le> length (exec_requests st1) + nat (n + 1 - (attempts + 1))"
        using 2 False rg Inr by auto
      with Inr rg False len show ?thesis
        by (simp add: execution_failed.simps [of env n code attempts e st])
    qed
  qed
qed

lemma execution_attempts_bound:
  "length (exec_requests (snd (execute_with_retries env code st)))
     \<le> length (exec_requests st) + nat (max_retries st + 1)"
  using execution_attempts_loop(1) [of env "max_retries st" code 0 st]
  by (simp add: execute_with_retries_def)

text \<open>
  The generation loop sends at most \<open>max_retries - attempts + 1\<close> correction requests; it is
  entered after the first request has failed, with \<open>attempts = 0\<close>.
\<close>

lemma generation_attempts_loop:
  "length (gen_requests (snd (generation_retry_loop env n e0 exception attempts st)))
     \<le> length (gen_requests st) + nat (n + 1 - attempts)"
proof (induction env n e0 exception attempts st rule: generation_retry_loop.induct)
  case (1 env n e0 exception attempts st)
  show ?case
  proof (cases "attempts \<le> n")
    case False
    then show ?thesis by (simp add: generation_retry_loop.simps)
  next
    case True
    let ?rg = "regenerate_code_after_error env (last_code_generated st) exception (Some e0) st"
    obtain r st1 where rg: "?rg = (r, st1)" by (cases ?rg)
    have len: "length (gen_requests st1) = Suc (length (gen_requests st))"
      using regenerate_gen_requests_length [of env "last_code_generated st" exception "Some e0" st] rg
      by simp
    have arith: "Suc (nat (n - attempts)) = nat (n + 1 - attempts)" using True by simp
    show ?thesis
    proof (cases r)
      case (Inr code)
      with rg True len show ?thesis
        by (simp add: generation_retry_loop.simps [of env n e0 exception attempts st])
    next
      case (Inl e)
      show ?thesis
      proof (cases "attempts + 1 > n")
        case True
        with Inl rg \<open>attempts \<le> n\<close> len show ?thesis
          unfolding generation_retry_loop.simps [of env n e0 exception attempts st] by simp
      next
        case False
        have "length (gen_requests (snd (generation_retry_loop env n e0 e (attempts + 1)
                 (log (LogRetryingGeneration (attempts + 1) n) st1))))
            \<le> length (gen_requests st1) + nat (n + 1 - (attempts + 1))"
          using 1 True rg Inl False by auto
        with Inl rg True False len arith show ?thesis
          by (simp add: generation_retry_loop.simps [of env n e0 exception attempts st])
      qed
    qed
  qed
qed

lemma generation_attempts_bound:
  "length (gen_requests (snd (generate_code_with_retries env query st)))
     \<le> length (gen_requests st) + 1 + nat (max_retries st + 1)"
proof -
  obtain r st1 where g: "generate_code env query st = (r, st1)"
    by (cases "generate_code env query st")
  have len: "length (gen_requests st1) = Suc (length (gen_requests st))"
    using generate_code_gen_requests_length [of env query st] g by simp
  show ?thesis
  proof (cases r)
    case (Inr code)
    with g len show ?thesis by (simp add: generate_code_with_retries_def)
  next
    case (Inl e)
    with g len generation_attempts_loop [of env "max_retries st" e e 0 st1] show ?thesis
      by (simp add: generate_code_with_retries_def)
  qed
qed

text \<open>
  The bound of the generation path is reached: when no request to the code generator is
  answered with a program, a budget of \<open>max_retries\<close> leads to \<open>max_retries + 2\<close> requests.
\<close>

lemma regenerate_fails:
  assumes "\<forall>k p. \<exists>e. outcome (code_generator env k p) = Inl e"
  shows "\<exists>e. fst (regenerate_code_after_error env code error handled st) = Inl e"
  using assms
  by (simp add: regenerate_code_after_error_def code_generator_generate_code_def Let_def)

lemma generate_code_fails:
  assumes "\<forall>k p. \<exists>e. outcome (code_generator env k p) = Inl e"
  shows "\<exists>e. fst (generate_code env query st) = Inl e"
proof -
  let ?st2 = "log LogGeneratingNewCode (st\<lparr>memory := memory st @ [(query, True)]\<rparr>)"
  obtain e where "outcome (code_generator env (length (gen_requests ?st2))
      (get_chat_prompt_for_sql ?st2)) = Inl e"
    using assms by blast
  then show ?thesis
    by (simp add: generate_code_def code_generator_generate_code_def Let_def)
qed

lemma generation_attempts_loop_all_fail:
  assumes "\<forall>k p. \<exists>e. outcome (code_generator env k p) = Inl e"
  shows "length (gen_requests (snd (generation_retry_loop env n e0 exception attempts st)))
     = length (gen_requests st) + nat (n + 1 - attempts)"
  using assms
proof (induction env n e0 exception attempts st rule: generation_retry_loop.induct)
  case (1 env n e0 exception attempts st)
  show ?case
  proof (cases "attempts \<le> n")
    case False
    then show ?thesis by (simp add: generation_retry_loop.simps)
  next
    case True
    let ?rg = "regenerate_code_after_error env (last_code_generated st) exception (Some e0) st"
    obtain r st1 where rg: "?rg = (r, st1)" by (cases ?rg)
    obtain e where e: "r = Inl e"
      using regenerate_fails [OF 1(2), of "last_code_generated st" exception "Some e0" st] rg
      by auto
    have len: "length (gen_requests st1) = Suc (length (gen_requests st))"
      using regenerate_gen_requests_length [of env "last_code_generated st" exception "Some e0" st] rg
      by simp
    have arith: "Suc (nat (n - attempts)) = nat (n + 1 - attempts)" using True by simp
    show ?thesis
    proof (cases "attempts + 1 > n")
      case last: True
      with e rg True len show ?thesis
        unfolding generation_retry_loop.simps [of env n e0 exception attempts st] by simp
    next
      case False
      have "length (gen_requests (snd (generation_retry_loop env n e0 e (attempts + 1)
               (log (LogRetryingGeneration (attempts + 1) n) st1))))
          = length (gen_requests st1) + nat (n + 1 - (attempts + 1))"
        using 1 True rg e False by auto
      with e rg True False len arith show ?thesis
        by (simp add: generation_retry_loop.simps [of env n e0 exception attempts st])
    qed
  qed
qed

lemma generation_attempts_when_all_fail:
  assumes "\<forall>k p. \<exists>e. outcome (code_generator env k p) = Inl e" and "0 \<le> max_retries st"
  shows "length (gen_requests (snd (generate_code_with_retries env query st)))
     = length (gen_requests st) + nat (max_retries st) + 2"
proof -
  obtain r st1 where g: "generate_code env query st = (r, st1)"
    by (cases "generate_code env query st")
  obtain e where e: "r = Inl e" using generate_code_fails [OF assms(1), of query st] g by auto
  have len: "length (gen_requests st1) = Suc (length (gen_requests st))"
    using generate_code_gen_requests_length [of env query st] g by simp
  have "nat (max_retries st + 1) = nat (max_retries st) + 1" using assms(2) by simp
  with e g len generation_attempts_loop_all_fail [OF assms(1), of "max_retries st" e e 0 st1]
  show ?thesis by (simp add: generate_code_with_retries_def)
qed

section \<open>The claims\<close>

text \<open>
  C1 (retry budget). The claim: with \<open>max_retries = N\<close> the orchestrator attempts generation
  at most \<open>N + 1\<close> times and execution at most \<open>N + 1\<close> times before it re-raises the last
  error, and with \<open>N = 0\<close> every failure is terminal at once. The execution loop keeps this
  bound (\<open>execution_attempts_bound\<close>). The generation path does not: the first call of
  \<^verbatim>\<open>generate_code\<close> stands before the loop and is not counted, so the generator is asked up to
  \<open>N + 2\<close> times (\<open>generation_attempts_bound\<close>, and \<open>generation_attempts_when_all_fail\<close>
  for the case in which this number is reached). The theorem runs the session with
  \<open>max_retries = 0\<close> against a generator whose programs are always rejected: the generator is
  asked twice, first by \<^verbatim>\<open>generate_code\<close> and then by one correction request, before the
  last error is re-raised.
\<close>

theorem zero_budget_generation_failure_is_retried:
  "max_retries zero_budget_session = 0
   \<and> fst (generate_code_with_retries rejecting_env ''total sales'' zero_budget_session)
       = Inl (Exn BadImportError ''os'')
   \<and> gen_requests (snd (generate_code_with_retries rejecting_env ''total sales'' zero_budget_session))
       = [ChatPromptForSql [(''total sales'', True)] None,
          CorrectErrorPromptForSql [(''total sales'', True)] None (Some ''import os'')
            ''Traceback (most recent call last): BadImportError: os'']"
  by (simp add: generate_code_with_retries_def generate_code_def generation_retry_loop.simps
      regenerate_code_after_error_def code_generator_generate_code_def rejecting_env_def
      zero_budget_session_def initial_state_def log_def Let_def get_chat_prompt_for_sql_def
      get_correct_error_prompt_for_sql_def isinstance_def format_exc_def)

text \<open>
  What \<^verbatim>\<open>_regenerate_code_after_error\<close> does with its arguments: it sends exactly one request to
  the code generator, the fix-output-type prompt if the error it is given is an
  \<^verbatim>\<open>InvalidLLMOutputType\<close> and the fix-error prompt for an error of every other class. The
  prompt carries the code it is given and the text that \<^verbatim>\<open>traceback.format_exc()\<close> renders for
  the exception that is being handled at the call. What the method returns or raises is the
  generator's answer to that request.
\<close>

lemma regenerate_code_after_error_classifies:
  "gen_requests (snd (regenerate_code_after_error env code error handled st))
     = gen_requests st @
       [if exn_cls error = InvalidLLMOutputType
        then CorrectOutputTypeErrorPrompt (memory st) (output_type st) code (format_exc handled)
        else CorrectErrorPromptForSql (memory st) (output_type st) code (format_exc handled)]
   \<and> fst (regenerate_code_after_error env code error handled st)
     = outcome (code_generator env (length (gen_requests st))
         (if exn_cls error = InvalidLLMOutputType
          then CorrectOutputTypeErrorPrompt (memory st) (output_type st) code (format_exc handled)
          else CorrectErrorPromptForSql (memory st) (output_type st) code (format_exc handled)))"
  by (simp add: regenerate_code_after_error_def code_generator_generate_code_def Let_def
      isinstance_def get_correct_output_type_error_prompt_def get_correct_error_prompt_for_sql_def)

text \<open>
  C9 (the two code properties). In every state of the agent, \<^verbatim>\<open>last_code_executed\<close> and
  \<^verbatim>\<open>last_generated_code\<close> return the same value, the state's \<^verbatim>\<open>last_code_generated\<close>. The
  second theorem shows the consequence on a session: after a turn in which every generated
  program was rejected and nothing was executed, \<^verbatim>\<open>last_code_executed\<close> reports the rejected
  program.
\<close>

theorem last_code_executed_is_last_generated_code:
  "last_code_executed st = last_generated_code st
   \<and> last_code_executed st = last_code_generated st"
  by (simp add: last_code_executed_def last_generated_code_def)

theorem rejected_code_is_reported_as_executed:
  "exec_requests (snd (process_query rejecting_env ''total sales'' None zero_budget_session)) = []
   \<and> last_code_executed (snd (process_query rejecting_env ''total sales'' None zero_budget_session))
       = Some ''import os''
   \<and> last_generated_code (snd (process_query rejecting_env ''total sales'' None zero_budget_session))
       = Some ''import os''"
proof -
  let ?st = "snd (process_query rejecting_env ''total sales'' None zero_budget_session)"
  have same: "last_code_executed ?st = last_generated_code ?st"
    using last_code_executed_is_last_generated_code [of ?st] by simp
  have "exec_requests ?st = [] \<and> last_generated_code ?st = Some ''import os''"
    by (simp add: process_query_def generate_code_with_retries_def generate_code_def
        generation_retry_loop.simps regenerate_code_after_error_def
        code_generator_generate_code_def rejecting_env_def zero_budget_session_def
        initial_state_def log_def Let_def get_chat_prompt_for_sql_def assign_prompt_id_def
        get_correct_error_prompt_for_sql_def isinstance_def format_exc_def
        last_generated_code_def)
  with same show ?thesis by simp
qed

subsection \<open>The query router\<close>

lemma router_step_local:
  "query_builder d = None \<Longrightarrow>
     router_step (tm, ex, reg) d = (tm, ex, reg @ [(schema_name d, d)])"
  by (simp add: router_step_def)

lemma router_step_delegate:
  "query_builder d = Some expr \<Longrightarrow>
     router_step (tm, ex, reg) d = (tm(schema_name d \<mapsto> expr), Some d, reg)"
  by (simp add: router_step_def)

text \<open>
  What the loop over the datasets leaves in \<^verbatim>\<open>df_executor\<close> and in the connection manager:
  the last dataset that has a query builder, and the datasets without one, in their order.
\<close>

lemma router_fold:
  "snd (foldl router_step (tm, ex, reg) ds)
     = (if filter (\<lambda>d. query_builder d \<noteq> None) ds = [] then ex
        else Some (last (filter (\<lambda>d. query_builder d \<noteq> None) ds)),
        reg @ map (\<lambda>d. (schema_name d, d)) (filter (\<lambda>d. query_builder d = None) ds))"
proof (induction ds arbitrary: tm ex reg)
  case Nil
  show ?case by simp
next
  case (Cons d ds)
  show ?case
  proof (cases "query_builder d")
    case None
    then show ?thesis
      by (simp add: router_step_local Cons)
  next
    case (Some expr)
    then show ?thesis
      by (simp add: router_step_delegate Cons)
  qed
qed

lemma router_fold_start:
  "foldl router_step (Map.empty, None, []) ds
     = (fst (foldl router_step (Map.empty, None, []) ds),
        if filter (\<lambda>d. query_builder d \<noteq> None) ds = [] then None
        else Some (last (filter (\<lambda>d. query_builder d \<noteq> None) ds)),
        map (\<lambda>d. (schema_name d, d)) (filter (\<lambda>d. query_builder d = None) ds))"
  using router_fold [of Map.empty None "[]" ds]
  by (metis append_Nil prod.collapse)

lemma no_delegates_all_local:
  "filter (\<lambda>d. query_builder d \<noteq> None) ds = [] \<Longrightarrow> filter (\<lambda>d. query_builder d = None) ds = ds"
  by (induction ds) (auto split: if_splits)

lemma filter_run_registered: "filter is_run (map (\<lambda>r. Registered (f r)) xs) = []"
  by (induction xs) auto

text \<open>
  C3 (one physical executor). A call of \<^verbatim>\<open>_execute_sql_query\<close> runs the rewritten query on at
  most one engine. DuckDB runs a query only in a session in which no dataset has a query
  builder. When the rewriting returns \<open>final_query\<close> and some dataset has a query builder, the
  only engine that runs is the \<^verbatim>\<open>execute_sql_query\<close> method of the last such dataset, and its
  answer is returned as it is. When no dataset has one, every dataset is registered in DuckDB
  under its schema name, in the order of the session, DuckDB runs \<open>final_query\<close> over these
  registrations and its answer is returned.
\<close>

theorem one_physical_executor:
  "length (filter is_run (snd (execute_sql_query be datasets query))) \<le> 1
   \<and> ((\<exists>q. RanDuckDB q \<in> set (snd (execute_sql_query be datasets query)))
        \<longrightarrow> filter (\<lambda>d. query_builder d \<noteq> None) datasets = [])
   \<and> (datasets \<noteq> []
        \<and> replace_table_and_column_names be query
             (fst (foldl router_step (Map.empty, None, []) datasets)) = Inr final_query
        \<and> filter (\<lambda>d. query_builder d \<noteq> None) datasets \<noteq> []
      \<longrightarrow> fst (execute_sql_query be datasets query)
            = df_execute_sql_query (last (filter (\<lambda>d. query_builder d \<noteq> None) datasets)) final_query
          \<and> filter is_run (snd (execute_sql_query be datasets query))
            = [RanDelegate (schema_name (last (filter (\<lambda>d. query_builder d \<noteq> None) datasets)))
                 final_query])
   \<and> (datasets \<noteq> []
        \<and> replace_table_and_column_names be query
             (fst (foldl router_step (Map.empty, None, []) datasets)) = Inr final_query
        \<and> filter (\<lambda>d. query_builder d \<noteq> None) datasets = []
      \<longrightarrow> fst (execute_sql_query be datasets query)
            = duckdb_sql be (map (\<lambda>d. (schema_name d, d)) datasets) final_query
          \<and> snd (execute_sql_query be datasets query)
            = map (\<lambda>d. Registered (schema_name d)) datasets @ [RanDuckDB final_query])"
proof (cases "datasets = []")
  case True
  then show ?thesis by (simp add: execute_sql_query_def)
next
  case False
  let ?tm = "fst (foldl router_step (Map.empty, None, []) datasets)"
  let ?del = "filter (\<lambda>d. query_builder d \<noteq> None) datasets"
  note fold = router_fold_start [of datasets]
  show ?thesis
  proof (cases "replace_table_and_column_names be query ?tm")
    case (Inl e)
    have "snd (execute_sql_query be datasets query)
        = map (\<lambda>r. Registered (fst r))
            (map (\<lambda>d. (schema_name d, d)) (filter (\<lambda>d. query_builder d = None) datasets))"
      using False Inl by (subst execute_sql_query_def, subst fold) (simp add: Let_def)
    then show ?thesis using Inl by (auto simp: filter_run_registered comp_def)
  next
    case (Inr fq)
    show ?thesis
    proof (cases "?del = []")
      case True
      have "execute_sql_query be datasets query
          = (duckdb_sql be (map (\<lambda>d. (schema_name d, d)) datasets) fq,
             map (\<lambda>d. Registered (schema_name d)) datasets @ [RanDuckDB fq])"
        using False Inr True no_delegates_all_local [OF True]
        by (subst execute_sql_query_def, subst fold) (simp add: Let_def comp_def)
      then show ?thesis using Inr True
        by (simp add: filter_run_registered [of schema_name, simplified])
    next
      case del: False
      have "execute_sql_query be datasets query
          = (df_execute_sql_query (last ?del) fq,
             map (\<lambda>r. Registered (fst r))
               (map (\<lambda>d. (schema_name d, d)) (filter (\<lambda>d. query_builder d = None) datasets))
             @ [RanDelegate (schema_name (last ?del)) fq])"
        using False Inr del
        by (subst execute_sql_query_def, subst fold) (simp add: Let_def)
      then show ?thesis using Inr del
        by (auto simp: filter_run_registered comp_def)
    qed
  qed
qed

theorem one_physical_executor_witness:
  "fst (execute_sql_query plain_backend [sales_df, customers_df] ''SELECT * FROM customers'')
     = Inr ''remote rows of SELECT * FROM customers''
   \<and> filter is_run (snd (execute_sql_query plain_backend [sales_df, customers_df]
        ''SELECT * FROM customers''))
     = [RanDelegate ''customers'' ''SELECT * FROM customers'']
   \<and> fst (execute_sql_query plain_backend [sales_df] ''SELECT * FROM sales'')
     = Inr ''rows of SELECT * FROM sales''
   \<and> snd (execute_sql_query plain_backend [sales_df] ''SELECT * FROM sales'')
     = [Registered ''sales'', RanDuckDB ''SELECT * FROM sales'']"
proof -
  let ?q1 = "''SELECT * FROM customers''" and ?q2 = "''SELECT * FROM sales''"
  have rw: "replace_table_and_column_names plain_backend q m = Inr q" for q m
    by (simp add: plain_backend_def)
  have del1: "filter (\<lambda>d. query_builder d \<noteq> None) [sales_df, customers_df] = [customers_df]"
    by (simp add: sales_df_def customers_df_def)
  have del2: "filter (\<lambda>d. query_builder d \<noteq> None) [sales_df] = []"
    by (simp add: sales_df_def)
  have remote: "fst (execute_sql_query plain_backend [sales_df, customers_df] ?q1)
        = df_execute_sql_query customers_df ?q1
      \<and> filter is_run (snd (execute_sql_query plain_backend [sales_df, customers_df] ?q1))
        = [RanDelegate (schema_name customers_df) ?q1]"
    using one_physical_executor [of plain_backend "[sales_df, customers_df]" ?q1 ?q1] rw del1
    by simp
  have local: "fst (execute_sql_query plain_backend [sales_df] ?q2)
        = duckdb_sql plain_backend [(schema_name sales_df, sales_df)] ?q2
      \<and> snd (execute_sql_query plain_backend [sales_df] ?q2)
        = [Registered (schema_name sales_df), RanDuckDB ?q2]"
    using one_physical_executor [of plain_backend "[sales_df]" ?q2 ?q2] rw del2
    by simp
  from remote local show ?thesis
    by (simp add: customers_df_def sales_df_def plain_backend_def)
qed

subsection \<open>Table-name rewriting\<close>

lemma replace_table_names_rejects:
  "(\<exists>msg. replace_table_names sql_parse q tables m = Inl (Exn MaliciousQueryError msg))
     = (\<exists>t \<in> set tables. m t = None)"
proof (cases "filter (\<lambda>t. m t = None) tables")
  case Nil
  then have "\<forall>t \<in> set tables. m t \<noteq> None"
    by (simp add: filter_empty_conv)
  with Nil show ?thesis by (auto simp: replace_table_names_def)
next
  case (Cons t ts)
  then have "t \<in> set (filter (\<lambda>t. m t = None) tables)" by simp
  then have "t \<in> set tables \<and> m t = None" by simp
  with Cons show ?thesis by (auto simp: replace_table_names_def)
qed

lemma rewrite_fragment_entry:
  assumes "\<forall>t \<in> set tables. m t \<noteq> None"
  shows "(case fragment of
            TableRef t \<Rightarrow> (if t \<in> set tables then m t = Some (rewrite_fragment tables m fragment)
                           else rewrite_fragment tables m fragment = t)
          | OtherText s \<Rightarrow> rewrite_fragment tables m fragment = s)"
  using assms by (cases fragment) (auto simp: rewrite_fragment_def split: option.splits)

lemma replace_table_names_fragments:
  assumes "\<forall>t \<in> set tables. m t \<noteq> None"
  shows "\<exists>outs. replace_table_names sql_parse q tables m = Inr (concat outs)
     \<and> list_all2 (\<lambda>fragment out.
          case fragment of
            TableRef t \<Rightarrow> (if t \<in> set tables then m t = Some out else out = t)
          | OtherText s \<Rightarrow> out = s) (sql_parse q) outs"
proof -
  let ?outs = "map (rewrite_fragment tables m) (sql_parse q)"
  have "filter (\<lambda>t. m t = None) tables = []" using assms by (simp add: filter_empty_conv)
  then have "replace_table_names sql_parse q tables m = Inr (concat ?outs)"
    by (simp add: replace_table_names_def)
  moreover have "list_all2 (\<lambda>fragment out.
          case fragment of
            TableRef t \<Rightarrow> (if t \<in> set tables then m t = Some out else out = t)
          | OtherText s \<Rightarrow> out = s) (sql_parse q) ?outs"
    unfolding list_all2_map2 list_all2_same
    using rewrite_fragment_entry [OF assms] by blast
  ultimately show ?thesis by blast
qed

lemma replace_table_names_identity:
  assumes "\<forall>t \<in> set tables. m t = Some t"
    and "concat (map fragment_text (sql_parse q)) = q"
  shows "replace_table_names sql_parse q tables m = Inr q"
proof -
  have "filter (\<lambda>t. m t = None) tables = []"
    using assms(1) by (simp add: filter_empty_conv)
  moreover have "rewrite_fragment tables m = fragment_text"
  proof
    fix fragment
    show "rewrite_fragment tables m fragment = fragment_text fragment"
      using assms(1) by (cases fragment) (auto simp: rewrite_fragment_def split: option.splits)
  qed
  ultimately show ?thesis using assms(2) by (simp add: replace_table_names_def)
qed

lemma concat_close_word: "concat (map fragment_text (close_word expect_table word)) = word"
  by (simp add: close_word_def)

lemma sql_scan_text:
  "mode \<noteq> InCode \<longrightarrow> word = [] \<Longrightarrow>
     concat (map fragment_text (sql_scan mode expect_table word cs)) = word @ cs"
  by (induction mode expect_table word cs rule: sql_scan.induct)
     (auto simp: concat_close_word split: list.splits)

lemma example_sql_parse_text: "concat (map fragment_text (example_sql_parse q)) = q"
  by (simp add: example_sql_parse_def sql_scan_text)

text \<open>
  C4 (table-name rewriting). For every SQL-aware parse: the rewriting raises
  \<^verbatim>\<open>MaliciousQueryError\<close> exactly when a referenced table has no entry in the table mapping.
  When every referenced table has an entry, the result is made of the fragments of the
  query in their order, with every reference to a referenced table replaced by its entry and
  all other text, string literals and comments included, left as it is. With a mapping that
  sends every referenced table to itself, and a parse that loses no text, the query is
  returned unchanged; so it is for the mapping \<^verbatim>\<open>{"my_table": "my_table"}\<close> and the query
  \<^verbatim>\<open>SELECT * FROM my_table;\<close>, and with the empty mapping the same query raises
  \<^verbatim>\<open>MaliciousQueryError\<close>.
\<close>

theorem replace_table_names_spec:
  "((\<exists>msg. replace_table_names sql_parse q tables m = Inl (Exn MaliciousQueryError msg))
      = (\<exists>t \<in> set tables. m t = None))
   \<and> ((\<forall>t \<in> set tables. m t \<noteq> None) \<longrightarrow>
        (\<exists>outs. replace_table_names sql_parse q tables m = Inr (concat outs)
           \<and> list_all2 (\<lambda>fragment out.
                case fragment of
                  TableRef t \<Rightarrow> (if t \<in> set tables then m t = Some out else out = t)
                | OtherText s \<Rightarrow> out = s) (sql_parse q) outs))
   \<and> ((\<forall>t \<in> set tables. m t = Some t) \<and> concat (map fragment_text (sql_parse q)) = q
        \<longrightarrow> replace_table_names sql_parse q tables m = Inr q)
   \<and> (concat (map fragment_text (sql_parse ''SELECT * FROM my_table;'')) = ''SELECT * FROM my_table;''
        \<longrightarrow> replace_table_names sql_parse ''SELECT * FROM my_table;'' [''my_table'']
              [''my_table'' \<mapsto> ''my_table'']
            = Inr ''SELECT * FROM my_table;'')
   \<and> (\<exists>msg. replace_table_names sql_parse ''SELECT * FROM my_table;'' [''my_table''] Map.empty
          = Inl (Exn MaliciousQueryError msg))"
proof -
  have test_valid: "replace_table_names sql_parse ''SELECT * FROM my_table;'' [''my_table'']
        [''my_table'' \<mapsto> ''my_table''] = Inr ''SELECT * FROM my_table;''"
    if "concat (map fragment_text (sql_parse ''SELECT * FROM my_table;'')) = ''SELECT * FROM my_table;''"
    using that by (intro replace_table_names_identity) simp_all
  have test_invalid: "\<exists>msg. replace_table_names sql_parse ''SELECT * FROM my_table;''
        [''my_table''] Map.empty = Inl (Exn MaliciousQueryError msg)"
    using replace_table_names_rejects [of sql_parse "''SELECT * FROM my_table;''" "[''my_table'']" Map.empty]
    by simp
  show ?thesis
    using replace_table_names_rejects [of sql_parse q tables m]
      replace_table_names_fragments [of tables m sql_parse q]
      replace_table_names_identity [of tables m sql_parse q]
      test_valid test_invalid
    by blast
qed

theorem replace_table_names_spec_witness:
  "replace_table_names example_sql_parse ''SELECT * FROM my_table;'' [''my_table'']
       [''my_table'' \<mapsto> ''my_table'']
     = Inr ''SELECT * FROM my_table;''
   \<and> replace_table_names example_sql_parse
       ''SELECT * FROM sales JOIN customers ON sales.cid = customers.id''
       [''sales'', ''customers''] [''sales'' \<mapsto> ''sales'', ''customers'' \<mapsto> ''customers'']
     = Inr ''SELECT * FROM sales JOIN customers ON sales.cid = customers.id''
   \<and> (\<exists>msg. replace_table_names example_sql_parse ''SELECT * FROM orders'' [''orders'']
         [''sales'' \<mapsto> ''sales''] = Inl (Exn MaliciousQueryError msg))
   \<and> replace_table_names example_sql_parse
       ''SELECT 'sales', sales FROM sales /* sales */ -- sales''
       [''sales''] [''sales'' \<mapsto> ''t_sales'']
     = Inr ''SELECT 'sales', sales FROM t_sales /* sales */ -- sales''"
proof -
  have a: "replace_table_names example_sql_parse ''SELECT * FROM my_table;'' [''my_table'']
       [''my_table'' \<mapsto> ''my_table''] = Inr ''SELECT * FROM my_table;''"
    using replace_table_names_spec [of example_sql_parse "[]" "[]" Map.empty,
        THEN conjunct2, THEN conjunct2, THEN conjunct2, THEN conjunct1]
      example_sql_parse_text
    by blast
  let ?q = "''SELECT * FROM sales JOIN customers ON sales.cid = customers.id''"
  let ?m = "[''sales'' \<mapsto> ''sales'', ''customers'' \<mapsto> ''customers'']"
  have "\<forall>t \<in> set [''sales'', ''customers'']. ?m t = Some t" by simp
  then have b: "replace_table_names example_sql_parse ?q [''sales'', ''customers''] ?m = Inr ?q"
    using replace_table_names_spec [of example_sql_parse ?q "[''sales'', ''customers'']" ?m,
        THEN conjunct2, THEN conjunct2, THEN conjunct1]
      example_sql_parse_text [of ?q]
    by blast
  have "\<exists>t \<in> set [''orders'']. [''sales'' \<mapsto> ''sales''] t = None" by simp
  then have c: "\<exists>msg. replace_table_names example_sql_parse ''SELECT * FROM orders'' [''orders'']
         [''sales'' \<mapsto> ''sales''] = Inl (Exn MaliciousQueryError msg)"
    using replace_table_names_spec
      [of example_sql_parse "''SELECT * FROM orders''" "[''orders'']" "[''sales'' \<mapsto> ''sales'']",
       THEN conjunct1]
    by blast
  have d: "replace_table_names example_sql_parse
       ''SELECT 'sales', sales FROM sales /* sales */ -- sales''
       [''sales''] [''sales'' \<mapsto> ''t_sales'']
     = Inr ''SELECT 'sales', sales FROM t_sales /* sales */ -- sales''"
    by (simp add: replace_table_names_def rewrite_fragment_def example_sql_parse_def
        close_word_def after_word_def is_table_keyword_def upper_char_def is_blank_def
        word_char_def)
  from a b c d show ?thesis by blast
qed

subsection \<open>Schema validation\<close>

text \<open>Every error of the schema's model validator is a \<^verbatim>\<open>ValueError\<close>.\<close>

lemma validate_name_error:
  "validate_name ok self = Inl e \<Longrightarrow> \<exists>msg. e = Exn ValueError msg"
  by (auto simp: validate_name_def split: if_splits)

lemma group_by_loop_error:
  "group_by_loop g cols = Inl e \<Longrightarrow> \<exists>msg. e = Exn ValueError msg"
  by (induction cols) (auto split: if_splits)

lemma validate_group_by_columns_error:
  "validate_group_by_columns self = Inl e \<Longrightarrow> \<exists>msg. e = Exn ValueError msg"
  by (auto simp: validate_group_by_columns_def dest: group_by_loop_error
      split: option.splits if_splits)

lemma validate_columns_relations_error:
  "validate_columns_relations self = Inl e \<Longrightarrow> \<exists>msg. e = Exn ValueError msg"
  by (auto simp: validate_columns_relations_def Let_def split: if_splits)

lemma validate_columns_relations_both:
  "source self \<noteq> None \<Longrightarrow> view self = Some True \<Longrightarrow>
     \<exists>msg. validate_columns_relations self = Inl (Exn ValueError msg)"
  by (auto simp: validate_columns_relations_def Let_def)

lemma validate_columns_relations_neither:
  "source self = None \<Longrightarrow> view self \<noteq> Some True \<Longrightarrow>
     \<exists>msg. validate_columns_relations self = Inl (Exn ValueError msg)"
  by (auto simp: validate_columns_relations_def Let_def)

lemma validate_schema_error:
  "validate_schema ok self = Inl e \<Longrightarrow> \<exists>msg. e = Exn ValueError msg"
  by (auto simp: validate_schema_def split: sum.splits
      dest: validate_name_error validate_group_by_columns_error validate_columns_relations_error)

lemma validate_schema_fails:
  "(\<exists>msg. validate_columns_relations self = Inl (Exn ValueError msg)) \<Longrightarrow>
     \<exists>msg. validate_schema ok self = Inl (Exn ValueError msg)"
proof -
  assume a: "\<exists>msg. validate_columns_relations self = Inl (Exn ValueError msg)"
  then have "\<exists>e. validate_schema ok self = Inl e"
    by (auto simp: validate_schema_def split: sum.splits)
  then show ?thesis using validate_schema_error by blast
qed

lemma view_false_is_undefined:
  "validate_columns_relations (self\<lparr>view := Some False\<rparr>)
     = validate_columns_relations (self\<lparr>view := None\<rparr>)"
  by (simp add: validate_columns_relations_def Let_def)

text \<open>
  C10 (source or view). The checks read the two fields by their Python truth value:
  \<^verbatim>\<open>source\<close> is defined when it is not \<^verbatim>\<open>None\<close>, \<^verbatim>\<open>view\<close> is defined when it is \<^verbatim>\<open>True\<close> (the
  last part of the theorem: \<^verbatim>\<open>view = False\<close> is validated as \<^verbatim>\<open>view = None\<close> is). The model
  validator, and \<^verbatim>\<open>_validate_columns_relations\<close> alone, succeed only if exactly one of the
  two is defined; with both defined, and with neither defined, they raise a \<^verbatim>\<open>ValueError\<close>
  (which pydantic reports as a validation error).
\<close>

theorem exactly_one_of_source_and_view:
  "(validate_schema ok self = Inr validated
      \<longrightarrow> validated = self \<and> ((source self \<noteq> None) \<noteq> (view self = Some True)))
   \<and> (validate_columns_relations self = Inr ()
      \<longrightarrow> ((source self \<noteq> None) \<noteq> (view self = Some True)))
   \<and> (source self \<noteq> None \<and> view self = Some True
      \<longrightarrow> (\<exists>msg. validate_columns_relations self = Inl (Exn ValueError msg))
        \<and> (\<exists>msg. validate_schema ok self = Inl (Exn ValueError msg)))
   \<and> (source self = None \<and> view self \<noteq> Some True
      \<longrightarrow> (\<exists>msg. validate_columns_relations self = Inl (Exn ValueError msg))
        \<and> (\<exists>msg. validate_schema ok self = Inl (Exn ValueError msg)))
   \<and> validate_columns_relations (self\<lparr>view := Some False\<rparr>)
       = validate_columns_relations (self\<lparr>view := None\<rparr>)"
proof -
  have only_if: "(source self \<noteq> None) \<noteq> (view self = Some True)"
    if "validate_columns_relations self = Inr ()"
    using that validate_columns_relations_both [of self] validate_columns_relations_neither [of self]
    by fastforce
  have schema: "validated = self \<and> validate_columns_relations self = Inr ()"
    if "validate_schema ok self = Inr validated"
    using that by (auto simp: validate_schema_def split: sum.splits)
  show ?thesis
    using only_if schema validate_columns_relations_both [of self]
      validate_columns_relations_neither [of self] validate_schema_fails [of self ok]
      view_false_is_undefined [of self]
    by blast
qed

theorem exactly_one_of_source_and_view_witness:
  "validate_schema simple_name_format sales_schema = Inr sales_schema
   \<and> source sales_schema \<noteq> None \<and> view sales_schema \<noteq> Some True
   \<and> (\<exists>msg. validate_schema simple_name_format (sales_schema\<lparr>view := Some True\<rparr>)
         = Inl (Exn ValueError msg))
   \<and> (\<exists>msg. validate_schema simple_name_format (sales_schema\<lparr>source := None\<rparr>)
         = Inl (Exn ValueError msg))"
proof -
  have ok: "validate_schema simple_name_format sales_schema = Inr sales_schema"
    by (simp add: validate_schema_def validate_name_def validate_group_by_columns_def
        validate_columns_relations_def sales_schema_def simple_name_format_def word_char_def
        is_view_column_name_def table_part_def truthy_def Let_def)
  have one: "(source sales_schema \<noteq> None) \<noteq> (view sales_schema = Some True)"
    using exactly_one_of_source_and_view [of simple_name_format sales_schema sales_schema] ok
    by blast
  have src: "source sales_schema \<noteq> None" by (simp add: sales_schema_def)
  have both: "\<exists>msg. validate_schema simple_name_format (sales_schema\<lparr>view := Some True\<rparr>)
         = Inl (Exn ValueError msg)"
    using exactly_one_of_source_and_view
      [of simple_name_format "sales_schema\<lparr>view := Some True\<rparr>"] src
    by simp
  have neither: "\<exists>msg. validate_schema simple_name_format (sales_schema\<lparr>source := None\<rparr>)
         = Inl (Exn ValueError msg)"
    using exactly_one_of_source_and_view
      [of simple_name_format "sales_schema\<lparr>source := None\<rparr>"]
    by (simp add: sales_schema_def)
  from ok one src both neither show ?thesis by blast
qed

subsection \<open>Sources at session start\<close>

lemma SQLConnectionConfig_eq_iff: "SQLConnectionConfig_eq a b = (a = b)"
  by (cases a, cases b) (auto simp: SQLConnectionConfig_eq_def)

lemma connection_eq_True: "(connection_eq c1 c2 = Inr True) = (c1 = c2)"
  by (cases c1; cases c2; simp add: SQLConnectionConfig_eq_iff)

lemma is_compatible_source_iff:
  "(is_compatible_source local_types remote_types a b = Inr True)
     = ((source_type a \<in> set local_types \<and> source_type b \<in> set local_types)
        \<or> (source_type a \<in> set remote_types \<and> source_type b \<in> set remote_types
           \<and> connection a = connection b))"
  unfolding is_compatible_source_def
  by (simp add: connection_eq_True) blast

lemma check_compatible_sources_iff:
  "check_compatible_sources local_types remote_types sources
     = ((\<forall>s \<in> set sources. source_type s \<in> set local_types)
        \<or> ((\<forall>s \<in> set sources. source_type s \<in> set remote_types)
           \<and> (\<forall>a \<in> set sources. \<forall>b \<in> set sources. connection a = connection b)))"
  unfolding check_compatible_sources_def list_all_iff by (rule refl)

lemma check_compatible_sources_pairwise:
  "check_compatible_sources local_types remote_types sources
     = (\<forall>a \<in> set sources. \<forall>b \<in> set sources.
          is_compatible_source local_types remote_types a b = Inr True)"
proof (rule iffI)
  assume chk: "check_compatible_sources local_types remote_types sources"
  show "\<forall>a \<in> set sources. \<forall>b \<in> set sources.
      is_compatible_source local_types remote_types a b = Inr True"
  proof (intro ballI)
    fix a b
    assume ab: "a \<in> set sources" "b \<in> set sources"
    from chk ab have "(source_type a \<in> set local_types \<and> source_type b \<in> set local_types)
        \<or> (source_type a \<in> set remote_types \<and> source_type b \<in> set remote_types
           \<and> connection a = connection b)"
      unfolding check_compatible_sources_iff by blast
    then show "is_compatible_source local_types remote_types a b = Inr True"
      using is_compatible_source_iff [of local_types remote_types a b] by blast
  qed
next
  assume pw: "\<forall>a \<in> set sources. \<forall>b \<in> set sources.
      is_compatible_source local_types remote_types a b = Inr True"
  have pair: "(source_type a \<in> set local_types \<and> source_type b \<in> set local_types)
        \<or> (source_type a \<in> set remote_types \<and> source_type b \<in> set remote_types
           \<and> connection a = connection b)"
    if "a \<in> set sources" "b \<in> set sources" for a b
    using pw that is_compatible_source_iff [of local_types remote_types a b] by blast
  show "check_compatible_sources local_types remote_types sources"
  proof (cases "\<forall>s \<in> set sources. source_type s \<in> set local_types")
    case True
    then show ?thesis unfolding check_compatible_sources_iff by blast
  next
    case False
    then obtain a where a: "a \<in> set sources" "source_type a \<notin> set local_types" by blast
    have with_a: "source_type b \<in> set remote_types \<and> connection a = connection b"
      if "b \<in> set sources" for b
      using pair [OF a(1) that] a(2) by blast
    then have remote: "\<forall>b \<in> set sources. source_type b \<in> set remote_types" by blast
    have "\<forall>b \<in> set sources. \<forall>c \<in> set sources. connection b = connection c"
    proof (intro ballI)
      fix b c
      assume "b \<in> set sources" "c \<in> set sources"
      then have "connection a = connection b" "connection a = connection c"
        using with_a by blast+
      then show "connection b = connection c" by simp
    qed
    with remote show ?thesis unfolding check_compatible_sources_iff by blast
  qed
qed

subsection \<open>The datasets of a session do not change\<close>

lemma generator_dfs: "dfs (snd (code_generator_generate_code env p st)) = dfs st"
  by (simp add: code_generator_generate_code_def Let_def)

lemma regenerate_dfs:
  "dfs (snd (regenerate_code_after_error env code error handled st)) = dfs st"
  by (simp add: regenerate_code_after_error_def Let_def generator_dfs)

lemma generate_code_dfs: "dfs (snd (generate_code env query st)) = dfs st"
  by (simp add: generate_code_def Let_def code_generator_generate_code_def log_def
      split: sum.splits)

lemma execute_code_dfs: "dfs (snd (execute_code env code st)) = dfs st"
  by (simp add: execute_code_def Let_def log_def split: option.splits)

lemma generation_retry_loop_dfs:
  "dfs (snd (generation_retry_loop env n e0 exception attempts st)) = dfs st"
proof (induction env n e0 exception attempts st rule: generation_retry_loop.induct)
  case (1 env n e0 exception attempts st)
  let ?rg = "regenerate_code_after_error env (last_code_generated st) exception (Some e0) st"
  obtain r st1 where rg: "?rg = (r, st1)" by (cases ?rg)
  have st1: "dfs st1 = dfs st"
    using regenerate_dfs [of env "last_code_generated st" exception "Some e0" st] rg by simp
  show ?case
  proof (cases "attempts \<le> n \<and> (\<exists>e. r = Inl e) \<and> \<not> attempts + 1 > n")
    case True
    then obtain e where e: "r = Inl e" by blast
    have "dfs (snd (generation_retry_loop env n e0 e (attempts + 1)
             (log (LogRetryingGeneration (attempts + 1) n) st1))) = dfs st1"
      using 1 True rg e by auto
    with True e rg st1 show ?thesis
      unfolding generation_retry_loop.simps [of env n e0 exception attempts st] by simp
  next
    case False
    with rg st1 show ?thesis
      unfolding generation_retry_loop.simps [of env n e0 exception attempts st]
      by (cases r) auto
  qed
qed

lemma generate_code_with_retries_dfs:
  "dfs (snd (generate_code_with_retries env query st)) = dfs st"
proof -
  obtain r st1 where g: "generate_code env query st = (r, st1)"
    by (cases "generate_code env query st")
  have "dfs st1 = dfs st" using generate_code_dfs [of env query st] g by simp
  with g show ?thesis
    by (cases r) (simp_all add: generate_code_with_retries_def generation_retry_loop_dfs)
qed

lemma execution_retry_loop_dfs:
  "dfs (snd (execution_retry_loop env n code attempts st)) = dfs st"
  "dfs (snd (execution_failed env n code attempts e st)) = dfs st"
proof (induction env n code attempts st and env n code attempts e st
        rule: execution_retry_loop_execution_failed.induct)
  case (1 env n code attempts st)
  obtain r st1 where ex: "execute_code env code st = (r, st1)"
    by (cases "execute_code env code st")
  have st1: "dfs st1 = dfs st" using execute_code_dfs [of env code st] ex by simp
  have failed: "dfs (snd (execution_failed env n code attempts e st1)) = dfs st"
    if "attempts \<le> n"
      "r = Inl e \<or> (\<exists>result. r = Inr result \<and> response_parser env result code = Inl e)" for e
  proof -
    have "dfs (snd (execution_failed env n code attempts e st1)) = dfs st1"
      using that 1 ex by auto
    with st1 show ?thesis by simp
  qed
  show ?case
    using ex st1 failed
    by (auto simp: execution_retry_loop.simps [of env n code attempts st] split: sum.splits)
next
  case (2 env n code attempts e st)
  let ?st' = "log (LogRetryingExecution (attempts + 1) n) st"
  obtain r st1 where rg: "regenerate_code_after_error env code e (Some e) ?st' = (r, st1)"
    by (cases "regenerate_code_after_error env code e (Some e) ?st'")
  have st1: "dfs st1 = dfs st"
    using regenerate_dfs [of env code e "Some e" ?st'] rg by simp
  show ?case
  proof (cases "\<not> attempts + 1 > n \<and> (\<exists>code'. r = Inr code')")
    case True
    then obtain code' where c: "r = Inr code'" by blast
    have "dfs (snd (execution_retry_loop env n (Some code') (attempts + 1) st1)) = dfs st1"
      using 2 True rg c by auto
    with True c rg st1 show ?thesis
      unfolding execution_failed.simps [of env n code attempts e st] by simp
  next
    case False
    with rg st1 show ?thesis
      unfolding execution_failed.simps [of env n code attempts e st]
      by (cases r) auto
  qed
qed

lemma process_query_dfs: "dfs (snd (process_query env query out_type st)) = dfs st"
proof (cases "llm st")
  case None
  then show ?thesis by (simp add: process_query_def Let_def)
next
  case (Some llm_type)
  let ?st4 = "assign_prompt_id ((log (LogRunning llm_type) (log (LogQuestion query) st))
                 \<lparr>output_type := out_type\<rparr>)"
  have st4: "dfs ?st4 = dfs st" by (simp add: assign_prompt_id_def)
  obtain r st5 where g: "generate_code_with_retries env query ?st4 = (r, st5)"
    by (cases "generate_code_with_retries env query ?st4")
  have st5: "dfs st5 = dfs st"
    using generate_code_with_retries_dfs [of env query ?st4] g st4 by simp
  show ?thesis
  proof (cases r)
    case (Inl e)
    with Some g st5 show ?thesis by (simp add: process_query_def Let_def)
  next
    case (Inr code)
    obtain r2 st6 where x: "execute_with_retries env code st5 = (r2, st6)"
      by (cases "execute_with_retries env code st5")
    have "dfs st6 = dfs st"
      using execution_retry_loop_dfs(1) [of env "max_retries st5" code 0 st5] x st5
      by (simp add: execute_with_retries_def)
    with Some g Inr x show ?thesis
      by (cases r2) (simp_all add: process_query_def Let_def handle_exception_def)
  qed
qed

lemma chat_dfs: "dfs (snd (chat env query out_type st)) = dfs st"
  by (simp add: chat_def process_query_dfs start_new_conversation_def clear_memory_def)

lemma follow_up_dfs: "dfs (snd (follow_up env query out_type st)) = dfs st"
  by (simp add: follow_up_def process_query_dfs)

subsection \<open>A turn does not consult the sources\<close>

text \<open>
  Every operation of a turn commutes with a change of the source descriptors of the
  datasets. The only place where the datasets of a session are used is the query function,
  and the in-process engine is taken to answer from what it is given under the registered
  names, not from the source descriptors of the registered datasets.
\<close>

lemma with_sources_fields [simp]:
  "schema_name (with_sources f d) = schema_name d"
  "query_builder (with_sources f d) = query_builder d"
  "df_execute_sql_query (with_sources f d) = df_execute_sql_query d"
  by (simp_all add: with_sources_def)

lemma router_fold_with_sources:
  "foldl router_step (tm, map_option (with_sources f) ex, map (apsnd (with_sources f)) reg)
       (map (with_sources f) ds)
     = (case foldl router_step (tm, ex, reg) ds of
          (tm', ex', reg') \<Rightarrow> (tm', map_option (with_sources f) ex', map (apsnd (with_sources f)) reg'))"
proof (induction ds arbitrary: tm ex reg)
  case Nil
  show ?case by simp
next
  case (Cons d ds)
  show ?case
  proof (cases "query_builder d")
    case None
    have ih: "foldl router_step
          (tm, map_option (with_sources f) ex,
           map (apsnd (with_sources f)) reg @ [(schema_name d, with_sources f d)])
          (map (with_sources f) ds)
        = (case foldl router_step (tm, ex, reg @ [(schema_name d, d)]) ds of
             (tm', ex', reg') \<Rightarrow>
               (tm', map_option (with_sources f) ex', map (apsnd (with_sources f)) reg'))"
      using Cons [of tm ex "reg @ [(schema_name d, d)]"]
      by (simp only: map_append list.map apsnd_conv)
    show ?thesis using None by (simp add: router_step_local ih)
  next
    case (Some expr)
    have ih: "foldl router_step
          (tm(schema_name d \<mapsto> expr), Some (with_sources f d), map (apsnd (with_sources f)) reg)
          (map (with_sources f) ds)
        = (case foldl router_step (tm(schema_name d \<mapsto> expr), Some d, reg) ds of
             (tm', ex', reg') \<Rightarrow>
               (tm', map_option (with_sources f) ex', map (apsnd (with_sources f)) reg'))"
      using Cons [of "tm(schema_name d \<mapsto> expr)" "Some d" reg]
      by (simp only: option.map)
    show ?thesis using Some by (simp add: router_step_delegate ih)
  qed
qed

lemma execute_sql_query_with_sources:
  assumes "\<forall>regs q. duckdb_sql be (map (apsnd (with_sources f)) regs) q = duckdb_sql be regs q"
  shows "fst (execute_sql_query be (map (with_sources f) ds) query)
     = fst (execute_sql_query be ds query)"
proof -
  obtain tm ex reg where fold: "foldl router_step (Map.empty, None, []) ds = (tm, ex, reg)"
    by (cases "foldl router_step (Map.empty, None, []) ds") auto
  have fold': "foldl router_step (Map.empty, None, []) (map (with_sources f) ds)
      = (tm, map_option (with_sources f) ex, map (apsnd (with_sources f)) reg)"
    using router_fold_with_sources [of Map.empty f None "[]" ds] fold by simp
  show ?thesis
    using assms
    by (cases "ds = []")
      (auto simp: execute_sql_query_def fold fold' Let_def split: sum.splits option.splits)
qed


lemma session_with_sources_fields [simp]:
  "dfs (session_with_sources f st) = map (with_sources f) (dfs st)"
  "gen_requests (session_with_sources f st) = gen_requests st"
  "exec_requests (session_with_sources f st) = exec_requests st"
  "memory (session_with_sources f st) = memory st"
  "last_code_generated (session_with_sources f st) = last_code_generated st"
  "max_retries (session_with_sources f st) = max_retries st"
  "output_type (session_with_sources f st) = output_type st"
  "llm (session_with_sources f st) = llm st"
  by (simp_all add: session_with_sources_def)

lemma log_with_sources:
  "log entry (session_with_sources f st) = session_with_sources f (log entry st)"
  by (simp add: log_def session_with_sources_def)

lemma generator_with_sources:
  "code_generator_generate_code env p (session_with_sources f st)
     = apsnd (session_with_sources f) (code_generator_generate_code env p st)"
  by (simp add: code_generator_generate_code_def Let_def session_with_sources_def
      split: option.splits)

lemma regenerate_with_sources:
  "regenerate_code_after_error env code error handled (session_with_sources f st)
     = apsnd (session_with_sources f) (regenerate_code_after_error env code error handled st)"
  by (simp add: regenerate_code_after_error_def Let_def log_with_sources generator_with_sources
      get_correct_output_type_error_prompt_def get_correct_error_prompt_for_sql_def)

lemma generate_code_with_sources:
  "generate_code env query (session_with_sources f st)
     = apsnd (session_with_sources f) (generate_code env query st)"
proof -
  let ?st2 = "log LogGeneratingNewCode (st\<lparr>memory := memory st @ [(query, True)]\<rparr>)"
  have pre: "log LogGeneratingNewCode
        ((session_with_sources f st)\<lparr>memory := memory (session_with_sources f st) @ [(query, True)]\<rparr>)
      = session_with_sources f ?st2"
    by (simp add: log_def session_with_sources_def)
  have p: "get_chat_prompt_for_sql (session_with_sources f ?st2) = get_chat_prompt_for_sql ?st2"
    by (simp add: get_chat_prompt_for_sql_def)
  obtain r st3 where g: "code_generator_generate_code env (get_chat_prompt_for_sql ?st2) ?st2 = (r, st3)"
    by (cases "code_generator_generate_code env (get_chat_prompt_for_sql ?st2) ?st2")
  have upd: "(session_with_sources f st3)\<lparr>last_prompt_used := x\<rparr>
      = session_with_sources f (st3\<lparr>last_prompt_used := x\<rparr>)" for x
    by (simp add: session_with_sources_def)
  show ?thesis
    unfolding generate_code_def Let_def pre p generator_with_sources g
    by (cases r) (simp_all add: upd)
qed

lemma execute_code_with_sources:
  assumes "\<forall>regs q. duckdb_sql (backend env) (map (apsnd (with_sources f)) regs) q
      = duckdb_sql (backend env) regs q"
  shows "execute_code env code (session_with_sources f st)
     = apsnd (session_with_sources f) (execute_code env code st)"
proof -
  have q: "(\<lambda>q. fst (execute_sql_query (backend env) (map (with_sources f) (dfs st)) q))
      = (\<lambda>q. fst (execute_sql_query (backend env) (dfs st) q))"
    using execute_sql_query_with_sources [OF assms] by auto
  have upd: "(log entry (session_with_sources f st))\<lparr>exec_requests := x\<rparr>
      = session_with_sources f ((log entry st)\<lparr>exec_requests := x\<rparr>)" for entry x
    by (simp add: log_def session_with_sources_def)
  show ?thesis
    by (simp add: execute_code_def Let_def q upd split: option.splits)
qed

lemma generation_retry_loop_with_sources:
  "generation_retry_loop env n e0 exception attempts (session_with_sources f st)
     = apsnd (session_with_sources f) (generation_retry_loop env n e0 exception attempts st)"
proof (induction env n e0 exception attempts st rule: generation_retry_loop.induct)
  case (1 env n e0 exception attempts st)
  let ?rg = "regenerate_code_after_error env (last_code_generated st) exception (Some e0) st"
  obtain r st1 where rg: "?rg = (r, st1)" by (cases ?rg)
  have rg': "regenerate_code_after_error env (last_code_generated (session_with_sources f st))
        exception (Some e0) (session_with_sources f st) = (r, session_with_sources f st1)"
    using regenerate_with_sources [of env "last_code_generated st" exception "Some e0" f st] rg
    by simp
  show ?case
  proof (cases "attempts \<le> n \<and> (\<exists>e. r = Inl e) \<and> \<not> attempts + 1 > n")
    case True
    then obtain e where e: "r = Inl e" by blast
    have ih: "generation_retry_loop env n e0 e (attempts + 1)
          (session_with_sources f (log (LogRetryingGeneration (attempts + 1) n) st1))
        = apsnd (session_with_sources f)
            (generation_retry_loop env n e0 e (attempts + 1)
               (log (LogRetryingGeneration (attempts + 1) n) st1))"
      using 1 True rg e by auto
    show ?thesis
      unfolding generation_retry_loop.simps [of env n e0 exception attempts st]
        generation_retry_loop.simps [of env n e0 exception attempts "session_with_sources f st"]
      using True e rg rg' ih by (simp add: log_with_sources)
  next
    case False
    show ?thesis
      unfolding generation_retry_loop.simps [of env n e0 exception attempts st]
        generation_retry_loop.simps [of env n e0 exception attempts "session_with_sources f st"]
      using False rg rg' by (cases r) (auto simp: log_with_sources)
  qed
qed

lemma generate_code_with_retries_with_sources:
  "generate_code_with_retries env query (session_with_sources f st)
     = apsnd (session_with_sources f) (generate_code_with_retries env query st)"
proof -
  obtain r st1 where g: "generate_code env query st = (r, st1)"
    by (cases "generate_code env query st")
  then have g': "generate_code env query (session_with_sources f st)
      = (r, session_with_sources f st1)"
    by (simp add: generate_code_with_sources)
  show ?thesis
    unfolding generate_code_with_retries_def g g'
    by (cases r) (simp_all add: generation_retry_loop_with_sources)
qed

lemma execution_retry_loop_with_sources:
  assumes "\<forall>regs q. duckdb_sql (backend env) (map (apsnd (with_sources f)) regs) q
      = duckdb_sql (backend env) regs q"
  shows "execution_retry_loop env n code attempts (session_with_sources f st)
     = apsnd (session_with_sources f) (execution_retry_loop env n code attempts st)"
    and "execution_failed env n code attempts e (session_with_sources f st)
     = apsnd (session_with_sources f) (execution_failed env n code attempts e st)"
  using assms
proof (induction env n code attempts st and env n code attempts e st
        rule: execution_retry_loop_execution_failed.induct)
  case (1 env n code attempts st)
  note engine = 1(3)
  obtain r st1 where ex: "execute_code env code st = (r, st1)"
    by (cases "execute_code env code st")
  then have ex': "execute_code env code (session_with_sources f st)
      = (r, session_with_sources f st1)"
    by (simp add: execute_code_with_sources [OF engine])
  have failed: "execution_failed env n code attempts e (session_with_sources f st1)
        = apsnd (session_with_sources f) (execution_failed env n code attempts e st1)"
    if "attempts \<le> n"
      "r = Inl e \<or> (\<exists>result. r = Inr result \<and> response_parser env result code = Inl e)" for e
    using that 1 ex by auto
  show ?case
    unfolding execution_retry_loop.simps [of env n code attempts st]
      execution_retry_loop.simps [of env n code attempts "session_with_sources f st"]
    using ex ex' failed by (auto split: sum.splits)
next
  case (2 env n code attempts e st)
  note engine = 2(2)
  let ?st' = "log (LogRetryingExecution (attempts + 1) n) st"
  obtain r st1 where rg: "regenerate_code_after_error env code e (Some e) ?st' = (r, st1)"
    by (cases "regenerate_code_after_error env code e (Some e) ?st'")
  then have rg': "regenerate_code_after_error env code e (Some e)
        (log (LogRetryingExecution (attempts + 1) n) (session_with_sources f st))
      = (r, session_with_sources f st1)"
    by (simp add: log_with_sources regenerate_with_sources)
  show ?case
  proof (cases "\<not> attempts + 1 > n \<and> (\<exists>code'. r = Inr code')")
    case True
    then obtain code' where c: "r = Inr code'" by blast
    have ih: "execution_retry_loop env n (Some code') (attempts + 1) (session_with_sources f st1)
        = apsnd (session_with_sources f)
            (execution_retry_loop env n (Some code') (attempts + 1) st1)"
      using 2 True rg c by auto
    show ?thesis
      unfolding execution_failed.simps [of env n code attempts e st]
        execution_failed.simps [of env n code attempts e "session_with_sources f st"]
      using True c rg rg' ih by simp
  next
    case False
    show ?thesis
      unfolding execution_failed.simps [of env n code attempts e st]
        execution_failed.simps [of env n code attempts e "session_with_sources f st"]
      using False rg rg' by (cases r) (auto simp: log_with_sources)
  qed
qed


lemma process_query_with_sources:
  assumes "\<forall>regs q. duckdb_sql (backend env) (map (apsnd (with_sources f)) regs) q
      = duckdb_sql (backend env) regs q"
  shows "process_query env query out_type (session_with_sources f st)
     = apsnd (session_with_sources f) (process_query env query out_type st)"
proof (cases "llm st")
  case None
  then show ?thesis by (simp add: process_query_def Let_def log_with_sources)
next
  case (Some llm_type)
  let ?st4 = "assign_prompt_id ((log (LogRunning llm_type) (log (LogQuestion query) st))
                 \<lparr>output_type := out_type\<rparr>)"
  have st4: "assign_prompt_id ((log (LogRunning llm_type)
        (log (LogQuestion query) (session_with_sources f st)))\<lparr>output_type := out_type\<rparr>)
      = session_with_sources f ?st4"
    by (simp add: assign_prompt_id_def log_def session_with_sources_def)
  obtain r st5 where g: "generate_code_with_retries env query ?st4 = (r, st5)"
    by (cases "generate_code_with_retries env query ?st4")
  then have g': "generate_code_with_retries env query (session_with_sources f ?st4)
      = (r, session_with_sources f st5)"
    by (simp add: generate_code_with_retries_with_sources)
  show ?thesis
  proof (cases r)
    case (Inl e)
    with Some g g' st4 show ?thesis
      by (simp add: process_query_def Let_def log_with_sources)
  next
    case (Inr code)
    obtain r2 st6 where x: "execute_with_retries env code st5 = (r2, st6)"
      by (cases "execute_with_retries env code st5")
    then have x': "execute_with_retries env code (session_with_sources f st5)
        = (r2, session_with_sources f st6)"
      using execution_retry_loop_with_sources(1) [OF assms, of "max_retries st5" code 0 st5]
      by (simp add: execute_with_retries_def)
    from Some g g' st4 Inr x x' show ?thesis
      by (cases r2)
        (simp_all add: process_query_def Let_def log_with_sources handle_exception_def)
  qed
qed

lemma chat_with_sources:
  assumes "\<forall>regs q. duckdb_sql (backend env) (map (apsnd (with_sources f)) regs) q
      = duckdb_sql (backend env) regs q"
  shows "chat env query out_type (session_with_sources f st)
     = apsnd (session_with_sources f) (chat env query out_type st)"
proof -
  have "start_new_conversation (session_with_sources f st)
      = session_with_sources f (start_new_conversation st)"
    by (simp add: start_new_conversation_def clear_memory_def session_with_sources_def)
  then show ?thesis
    by (simp add: chat_def process_query_with_sources [OF assms])
qed

lemma follow_up_with_sources:
  assumes "\<forall>regs q. duckdb_sql (backend env) (map (apsnd (with_sources f)) regs) q
      = duckdb_sql (backend env) regs q"
  shows "follow_up env query out_type (session_with_sources f st)
     = apsnd (session_with_sources f) (follow_up env query out_type st)"
  by (simp add: follow_up_def process_query_with_sources [OF assms])

text \<open>
  C6 (compatible sources). Constructing an agent over a list of datasets raises a
  \<^verbatim>\<open>ValueError\<close> unless every pair of the datasets' sources is compatible, and returns the new
  session otherwise. Two sources are compatible (\<^verbatim>\<open>is_compatible_source\<close> returns \<^verbatim>\<open>True\<close>)
  exactly when both are of a local type, or both are of a remote type and their connections
  are equal. The check stands in the constructor only. \<^verbatim>\<open>chat\<close> and \<^verbatim>\<open>follow_up\<close> leave the
  datasets of the session as they are, and they never check the sources again: a turn over
  the same session with any other sources, compatible or not, returns or raises the same and
  leaves the same state.
\<close>

theorem sources_checked_at_session_start:
  "agent_init local_types remote_types (DatasetList datasets) config_llm config_max_retries
     = (if (\<forall>a \<in> set (map source_of datasets). \<forall>b \<in> set (map source_of datasets).
              is_compatible_source local_types remote_types a b = Inr True)
        then Inr (initial_state datasets config_llm config_max_retries)
        else Inl (Exn ValueError ''The sources of these datasets are not compatibles''))
   \<and> ((is_compatible_source local_types remote_types a b = Inr True)
       = ((source_type a \<in> set local_types \<and> source_type b \<in> set local_types)
          \<or> (source_type a \<in> set remote_types \<and> source_type b \<in> set remote_types
             \<and> connection a = connection b)))
   \<and> dfs (snd (chat env query out_type st)) = dfs st
   \<and> dfs (snd (follow_up env query out_type st)) = dfs st
   \<and> ((\<forall>regs q. duckdb_sql (backend env) (map (apsnd (with_sources f)) regs) q
                  = duckdb_sql (backend env) regs q)
      \<longrightarrow> chat env query out_type (session_with_sources f st)
            = apsnd (session_with_sources f) (chat env query out_type st)
          \<and> follow_up env query out_type (session_with_sources f st)
            = apsnd (session_with_sources f) (follow_up env query out_type st))"
proof -
  have "agent_init local_types remote_types (DatasetList datasets) config_llm config_max_retries
     = (if (\<forall>a \<in> set (map source_of datasets). \<forall>b \<in> set (map source_of datasets).
              is_compatible_source local_types remote_types a b = Inr True)
        then Inr (initial_state datasets config_llm config_max_retries)
        else Inl (Exn ValueError ''The sources of these datasets are not compatibles''))"
    unfolding agent_init_def check_compatible_sources_pairwise by simp
  then show ?thesis
    using is_compatible_source_iff [of local_types remote_types a b]
      chat_dfs [of env query out_type st] follow_up_dfs [of env query out_type st]
      chat_with_sources [of env f query out_type st]
      follow_up_with_sources [of env f query out_type st]
    by blast
qed

theorem sources_checked_at_session_start_witness:
  "agent_init example_local_types example_remote_types (DatasetList [sales_df, customers_df])
       (Some ''openai'') 3
     = Inl (Exn ValueError ''The sources of these datasets are not compatibles'')
   \<and> agent_init example_local_types example_remote_types (DatasetList [sales_df, sales_df])
       (Some ''openai'') 3
     = Inr (initial_state [sales_df, sales_df] (Some ''openai'') 3)
   \<and> is_compatible_source example_local_types example_remote_types sales_source customers_source
     = Inr False
   \<and> is_compatible_source example_local_types example_remote_types customers_source customers_source
     = Inr True
   \<and> agent_init example_local_types example_remote_types
       (DatasetList (map (with_sources mixed_sources) [sales_df, returns_df])) (Some ''openai'') 3
     = Inl (Exn ValueError ''The sources of these datasets are not compatibles'')
   \<and> chat flaky_env ''total sales'' None
       (session_with_sources mixed_sources (initial_state [sales_df, returns_df] (Some ''openai'') 3))
     = apsnd (session_with_sources mixed_sources)
         (chat flaky_env ''total sales'' None (initial_state [sales_df, returns_df] (Some ''openai'') 3))
   \<and> fst (chat flaky_env ''total sales'' None
       (session_with_sources mixed_sources (initial_state [sales_df, returns_df] (Some ''openai'') 3)))
     = Inr (Some (ParsedResponse ''42''))"
proof -
  have mixed: "is_compatible_source example_local_types example_remote_types
        sales_source customers_source = Inr False"
    by (simp add: is_compatible_source_def example_local_types_def example_remote_types_def
        sales_source_def customers_source_def)
  have same_local: "is_compatible_source example_local_types example_remote_types
        sales_source sales_source = Inr True"
    using sources_checked_at_session_start
      [of example_local_types example_remote_types "[]" None 0 sales_source sales_source,
       THEN conjunct2, THEN conjunct1]
    by (simp add: example_local_types_def sales_source_def)
  have same_remote: "is_compatible_source example_local_types example_remote_types
        customers_source customers_source = Inr True"
    using sources_checked_at_session_start
      [of example_local_types example_remote_types "[]" None 0 customers_source customers_source,
       THEN conjunct2, THEN conjunct1]
    by (simp add: example_remote_types_def customers_source_def)
  have src: "source_of sales_df = sales_source" "source_of customers_df = customers_source"
    by (simp_all add: source_of_def sales_df_def customers_df_def)
  have src': "source_of (with_sources mixed_sources sales_df) = sales_source"
    "source_of (with_sources mixed_sources returns_df) = customers_source"
    by (simp_all add: source_of_def with_sources_def mixed_sources_def returns_df_def
        sales_df_def)
  have a: "agent_init example_local_types example_remote_types (DatasetList [sales_df, customers_df])
       (Some ''openai'') 3
     = Inl (Exn ValueError ''The sources of these datasets are not compatibles'')"
    using sources_checked_at_session_start
      [of example_local_types example_remote_types "[sales_df, customers_df]" "Some ''openai''" 3,
       THEN conjunct1]
      mixed src
    by simp
  have b: "agent_init example_local_types example_remote_types
       (DatasetList [sales_df, sales_df]) (Some ''openai'') 3
     = Inr (initial_state [sales_df, sales_df] (Some ''openai'') 3)"
    using sources_checked_at_session_start
      [of example_local_types example_remote_types "[sales_df, sales_df]" "Some ''openai''" 3,
       THEN conjunct1]
      same_local src
    by simp
  have c: "agent_init example_local_types example_remote_types
       (DatasetList (map (with_sources mixed_sources) [sales_df, returns_df])) (Some ''openai'') 3
     = Inl (Exn ValueError ''The sources of these datasets are not compatibles'')"
    using sources_checked_at_session_start
      [of example_local_types example_remote_types
          "map (with_sources mixed_sources) [sales_df, returns_df]" "Some ''openai''" 3,
       THEN conjunct1]
      mixed src'
    by simp
  let ?st = "initial_state [sales_df, returns_df] (Some ''openai'') 3"
  have engine: "\<forall>regs q. duckdb_sql (backend flaky_env) (map (apsnd (with_sources mixed_sources)) regs) q
      = duckdb_sql (backend flaky_env) regs q"
    by (simp add: flaky_env_def plain_backend_def)
  have d: "chat flaky_env ''total sales'' None (session_with_sources mixed_sources ?st)
      = apsnd (session_with_sources mixed_sources) (chat flaky_env ''total sales'' None ?st)"
    using sources_checked_at_session_start
      [where env = flaky_env and f = mixed_sources and query = "''total sales''"
         and out_type = None and st = ?st,
       THEN conjunct2, THEN conjunct2, THEN conjunct2, THEN conjunct2] engine
    by blast
  have "fst (chat flaky_env ''total sales'' None ?st) = Inr (Some (ParsedResponse ''42''))"
    by (simp add: chat_def start_new_conversation_def clear_memory_def session_eval
        flaky_env_def)
  with d have e: "fst (chat flaky_env ''total sales'' None (session_with_sources mixed_sources ?st))
      = Inr (Some (ParsedResponse ''42''))"
    by simp
  from a b c d e mixed same_remote show ?thesis by simp
qed

subsection \<open>The requests a turn sends to the code generator\<close>

text \<open>
  The list of requests only grows, and a turn begins with the chat prompt over the message
  history extended by the query.
\<close>

lemma regenerate_request:
  "gen_requests (snd (regenerate_code_after_error env code error handled st))
     = gen_requests st @
       [if exn_cls error = InvalidLLMOutputType
        then CorrectOutputTypeErrorPrompt (memory st) (output_type st) code (format_exc handled)
        else CorrectErrorPromptForSql (memory st) (output_type st) code (format_exc handled)]"
  by (simp add: regenerate_code_after_error_def code_generator_generate_code_def Let_def
      isinstance_def get_correct_output_type_error_prompt_def get_correct_error_prompt_for_sql_def)

lemma generate_code_request:
  "gen_requests (snd (generate_code env query st))
     = gen_requests st @ [ChatPromptForSql (memory st @ [(query, True)]) (output_type st)]"
  by (simp add: generate_code_def Let_def code_generator_generate_code_def log_def
      get_chat_prompt_for_sql_def split: sum.splits)

lemma generation_retry_loop_requests:
  "\<exists>rest. gen_requests (snd (generation_retry_loop env n e0 exception attempts st))
     = gen_requests st @ rest"
proof (induction env n e0 exception attempts st rule: generation_retry_loop.induct)
  case (1 env n e0 exception attempts st)
  let ?rg = "regenerate_code_after_error env (last_code_generated st) exception (Some e0) st"
  obtain r st1 where rg: "?rg = (r, st1)" by (cases ?rg)
  obtain p where st1: "gen_requests st1 = gen_requests st @ [p]"
    using regenerate_request [of env "last_code_generated st" exception "Some e0" st] rg by simp
  show ?case
  proof (cases "attempts \<le> n \<and> (\<exists>e. r = Inl e) \<and> \<not> attempts + 1 > n")
    case True
    then obtain e where e: "r = Inl e" by blast
    have "\<exists>rest. gen_requests (snd (generation_retry_loop env n e0 e (attempts + 1)
             (log (LogRetryingGeneration (attempts + 1) n) st1))) = gen_requests st1 @ rest"
      using 1 True rg e by auto
    with True e rg st1 show ?thesis
      unfolding generation_retry_loop.simps [of env n e0 exception attempts st] by auto
  next
    case False
    with rg st1 show ?thesis
      unfolding generation_retry_loop.simps [of env n e0 exception attempts st]
      by (cases r) auto
  qed
qed

lemma generate_code_with_retries_requests:
  "\<exists>rest. gen_requests (snd (generate_code_with_retries env query st))
     = gen_requests st @ ChatPromptForSql (memory st @ [(query, True)]) (output_type st) # rest"
proof -
  obtain r st1 where g: "generate_code env query st = (r, st1)"
    by (cases "generate_code env query st")
  have st1: "gen_requests st1
      = gen_requests st @ [ChatPromptForSql (memory st @ [(query, True)]) (output_type st)]"
    using generate_code_request [of env query st] g by simp
  show ?thesis
  proof (cases r)
    case (Inr code)
    with g st1 show ?thesis by (simp add: generate_code_with_retries_def)
  next
    case (Inl e)
    obtain rest where "gen_requests (snd (generation_retry_loop env (max_retries st) e e 0 st1))
        = gen_requests st1 @ rest"
      using generation_retry_loop_requests by blast
    with Inl g st1 show ?thesis by (simp add: generate_code_with_retries_def)
  qed
qed

lemma execution_retry_loop_requests:
  "\<exists>rest. gen_requests (snd (execution_retry_loop env n code attempts st)) = gen_requests st @ rest"
  "\<exists>rest. gen_requests (snd (execution_failed env n code attempts e st)) = gen_requests st @ rest"
proof (induction env n code attempts st and env n code attempts e st
        rule: execution_retry_loop_execution_failed.induct)
  case (1 env n code attempts st)
  obtain r st1 where ex: "execute_code env code st = (r, st1)"
    by (cases "execute_code env code st")
  have st1: "gen_requests st1 = gen_requests st"
    using execute_code_gen_requests [of env code st] ex by simp
  have failed: "\<exists>rest. gen_requests (snd (execution_failed env n code attempts e st1))
        = gen_requests st @ rest"
    if "attempts \<le> n"
      "r = Inl e \<or> (\<exists>result. r = Inr result \<and> response_parser env result code = Inl e)" for e
  proof -
    have "\<exists>rest. gen_requests (snd (execution_failed env n code attempts e st1))
        = gen_requests st1 @ rest"
      using that 1 ex by auto
    with st1 show ?thesis by simp
  qed
  show ?case
    using ex st1 failed
    by (auto simp: execution_retry_loop.simps [of env n code attempts st] split: sum.splits)
next
  case (2 env n code attempts e st)
  let ?st' = "log (LogRetryingExecution (attempts + 1) n) st"
  obtain r st1 where rg: "regenerate_code_after_error env code e (Some e) ?st' = (r, st1)"
    by (cases "regenerate_code_after_error env code e (Some e) ?st'")
  obtain p where st1: "gen_requests st1 = gen_requests st @ [p]"
    using regenerate_request [of env code e "Some e" ?st'] rg by simp
  show ?case
  proof (cases "\<not> attempts + 1 > n \<and> (\<exists>code'. r = Inr code')")
    case True
    then obtain code' where c: "r = Inr code'" by blast
    have "\<exists>rest. gen_requests (snd (execution_retry_loop env n (Some code') (attempts + 1) st1))
        = gen_requests st1 @ rest"
      using 2 True rg c by auto
    with True c rg st1 show ?thesis
      unfolding execution_failed.simps [of env n code attempts e st] by auto
  next
    case False
    with rg st1 show ?thesis
      unfolding execution_failed.simps [of env n code attempts e st]
      by (cases r) auto
  qed
qed

lemma process_query_first_request:
  assumes "llm st = Some llm_type"
  shows "\<exists>rest. gen_requests (snd (process_query env query out_type st))
     = gen_requests st @ ChatPromptForSql (memory st @ [(query, True)]) out_type # rest"
proof -
  let ?st4 = "assign_prompt_id ((log (LogRunning llm_type) (log (LogQuestion query) st))
                 \<lparr>output_type := out_type\<rparr>)"
  have st4: "gen_requests ?st4 = gen_requests st" "memory ?st4 = memory st"
    "output_type ?st4 = out_type"
    by (simp_all add: assign_prompt_id_def)
  obtain r st5 where g: "generate_code_with_retries env query ?st4 = (r, st5)"
    by (cases "generate_code_with_retries env query ?st4")
  obtain rest where st5: "gen_requests st5
      = gen_requests st @ ChatPromptForSql (memory st @ [(query, True)]) out_type # rest"
    using generate_code_with_retries_requests [of env query ?st4] g st4 by auto
  show ?thesis
  proof (cases r)
    case (Inl e)
    with assms g st5 show ?thesis by (simp add: process_query_def Let_def)
  next
    case (Inr code)
    obtain r2 st6 where x: "execute_with_retries env code st5 = (r2, st6)"
      by (cases "execute_with_retries env code st5")
    obtain rest2 where "gen_requests st6 = gen_requests st5 @ rest2"
      using execution_retry_loop_requests(1) [of env "max_retries st5" code 0 st5] x
      by (auto simp: execute_with_retries_def)
    with st5 assms g Inr x show ?thesis
      by (cases r2) (simp_all add: process_query_def Let_def handle_exception_def)
  qed
qed

subsection \<open>New conversations and follow-ups\<close>

text \<open>
  C7, the claim as it is stated: \<^verbatim>\<open>chat\<close> resets the conversation state before it enters the
  cycle. It does not reset the last generated program: \<^verbatim>\<open>start_new_conversation\<close> clears the
  memory and nothing else. In the session below an earlier conversation has left a program;
  in the new conversation the model cannot be reached, and the correction request that
  \<^verbatim>\<open>chat\<close> sends carries the program of the earlier conversation.
\<close>

theorem chat_keeps_last_generated_code:
  "last_code_generated (start_new_conversation previous_session)
     = Some ''SELECT COUNT(*) FROM sales''
   \<and> gen_requests (snd (chat api_down_env ''total sales'' None previous_session))
     = [ChatPromptForSql [(''total sales'', True)] None,
        CorrectErrorPromptForSql [(''total sales'', True)] None
          (Some ''SELECT COUNT(*) FROM sales'')
          ''Traceback (most recent call last): PandasAIApiCallError: Request failed'']"
  by (simp add: chat_def start_new_conversation_def clear_memory_def process_query_def
      generate_code_with_retries_def generate_code_def generation_retry_loop.simps
      regenerate_code_after_error_def code_generator_generate_code_def api_down_env_def
      previous_session_def initial_state_def log_def Let_def get_chat_prompt_for_sql_def
      assign_prompt_id_def get_correct_error_prompt_for_sql_def isinstance_def format_exc_def)

text \<open>
  C7, amended. \<^verbatim>\<open>chat\<close> raises a \<^verbatim>\<open>ValueError\<close> when no model is configured; otherwise it
  clears the message history, and only the message history, and then enters the cycle of
  \<^verbatim>\<open>_process_query\<close>. \<^verbatim>\<open>follow_up\<close> enters the same cycle with the state as it is. So the first
  request of a turn started by \<^verbatim>\<open>chat\<close> holds the query alone as its history, and the first
  request of a turn started by \<^verbatim>\<open>follow_up\<close> holds the whole history with the query added.
\<close>

theorem chat_clears_the_message_history:
  "chat env query out_type st
     = (if llm st = None
        then (Inl (Exn ValueError ''PandasAI API key does not include LLM credits.''), st)
        else process_query env query out_type (st\<lparr>memory := []\<rparr>))
   \<and> follow_up env query out_type st = process_query env query out_type st
   \<and> (llm st \<noteq> None \<longrightarrow>
        (\<exists>rest. gen_requests (snd (chat env query out_type st))
           = gen_requests st @ ChatPromptForSql [(query, True)] out_type # rest)
        \<and> (\<exists>rest. gen_requests (snd (follow_up env query out_type st))
           = gen_requests st @ ChatPromptForSql (memory st @ [(query, True)]) out_type # rest))"
proof -
  have a: "chat env query out_type st
     = (if llm st = None
        then (Inl (Exn ValueError ''PandasAI API key does not include LLM credits.''), st)
        else process_query env query out_type (st\<lparr>memory := []\<rparr>))"
    by (simp add: chat_def start_new_conversation_def clear_memory_def)
  have b: "follow_up env query out_type st = process_query env query out_type st"
    by (simp add: follow_up_def)
  have c: "\<exists>rest. gen_requests (snd (chat env query out_type st))
           = gen_requests st @ ChatPromptForSql [(query, True)] out_type # rest"
    if "llm st \<noteq> None"
  proof -
    from that obtain t where t: "llm (st\<lparr>memory := []\<rparr>) = Some t" by auto
    from process_query_first_request [OF t, of env query out_type] a that
    show ?thesis by simp
  qed
  have d: "\<exists>rest. gen_requests (snd (follow_up env query out_type st))
           = gen_requests st @ ChatPromptForSql (memory st @ [(query, True)]) out_type # rest"
    if "llm st \<noteq> None"
  proof -
    from that obtain t where t: "llm st = Some t" by auto
    from process_query_first_request [OF t, of env query out_type] b
    show ?thesis by simp
  qed
  from a b c d show ?thesis by blast
qed

theorem chat_clears_the_message_history_witness:
  "(\<exists>rest. gen_requests (snd (chat rejecting_env ''total sales'' None previous_session))
      = ChatPromptForSql [(''total sales'', True)] None # rest)
   \<and> (\<exists>rest. gen_requests (snd (follow_up rejecting_env ''total sales'' None previous_session))
      = ChatPromptForSql [(''how many rows'', True), (''total sales'', True)] None # rest)"
proof -
  have l: "llm previous_session \<noteq> None" "gen_requests previous_session = []"
    "memory previous_session = [(''how many rows'', True)]"
    by (simp_all add: previous_session_def initial_state_def)
  from chat_clears_the_message_history
    [of rejecting_env "''total sales''" None previous_session, THEN conjunct2, THEN conjunct2] l
  show ?thesis by simp
qed

subsection \<open>How a turn ends\<close>

text \<open>
  When the execution phase raises without having sent a correction request, it has run the
  program it was given, once.
\<close>

lemma execution_failed_without_regeneration:
  assumes "execution_failed env n code attempts e st = (r, st')"
    and "gen_requests st' = gen_requests st"
  shows "exec_requests st' = exec_requests st \<and> r = Inl e"
proof (cases "attempts + 1 > n")
  case True
  with assms show ?thesis
    unfolding execution_failed.simps [of env n code attempts e st] by auto
next
  case False
  let ?st' = "log (LogRetryingExecution (attempts + 1) n) st"
  obtain r1 st1 where rg: "regenerate_code_after_error env code e (Some e) ?st' = (r1, st1)"
    by (cases "regenerate_code_after_error env code e (Some e) ?st'")
  obtain p where st1: "gen_requests st1 = gen_requests st @ [p]"
    using regenerate_request [of env code e "Some e" ?st'] rg by simp
  have "\<exists>rest. gen_requests st' = gen_requests st1 @ rest"
  proof (cases r1)
    case (Inl e')
    with assms(1) False rg show ?thesis
      unfolding execution_failed.simps [of env n code attempts e st] by auto
  next
    case (Inr code')
    with assms(1) False rg
    have "execution_retry_loop env n (Some code') (attempts + 1) st1 = (r, st')"
      unfolding execution_failed.simps [of env n code attempts e st] by auto
    with execution_retry_loop_requests(1) [of env n "Some code'" "attempts + 1" st1]
    show ?thesis by simp
  qed
  with st1 assms(2) show ?thesis by simp
qed

lemma execute_with_retries_without_regeneration:
  assumes "execute_with_retries env code st = (Inl e, st')"
    and "gen_requests st' = gen_requests st"
  shows "exec_requests st' = exec_requests st @ [code]"
proof -
  let ?n = "max_retries st"
  have loop: "execution_retry_loop env ?n code 0 st = (Inl e, st')"
    using assms(1) by (simp add: execute_with_retries_def)
  have n: "0 \<le> ?n"
    using loop unfolding execution_retry_loop.simps [of env ?n code 0 st]
    by (auto split: if_splits)
  obtain r st1 where ex: "execute_code env code st = (r, st1)"
    by (cases "execute_code env code st")
  have st1: "exec_requests st1 = exec_requests st @ [code]" "gen_requests st1 = gen_requests st"
    using execute_code_requests [of env code st] execute_code_gen_requests [of env code st] ex
    by simp_all
  from loop n ex obtain e1 where "execution_failed env ?n code 0 e1 st1 = (Inl e, st')"
    unfolding execution_retry_loop.simps [of env ?n code 0 st]
    by (auto split: sum.splits)
  from execution_failed_without_regeneration [OF this] assms(2) st1
  show ?thesis by simp
qed

text \<open>
  C2, the claim as it is stated: every terminal failure of a turn is returned as an error
  response that carries the last attempted code, and no exception reaches the caller. In
  the first session every generated program is rejected and the budget is exhausted:
  \<^verbatim>\<open>_process_query\<close> raises the \<^verbatim>\<open>BadImportError\<close>. In the second session every execution
  fails and one retry is allowed: the error response carries the first program, and the
  program attempted last is the second one.
\<close>

theorem terminal_failure_is_not_always_an_error_response:
  "fst (process_query rejecting_env ''total sales'' None zero_budget_session)
     = Inl (Exn BadImportError ''os'')
   \<and> fst (process_query crashing_env ''total sales'' None one_retry_session)
     = Inr (Some (ErrorResponse (Some ''result = run(1)'')
         ''Traceback (most recent call last): CodeExecutionError: division by zero''))
   \<and> exec_requests (snd (process_query crashing_env ''total sales'' None one_retry_session))
     = [Some ''result = run(1)'', Some ''result = run(2)'']"
  by (simp add: session_eval rejecting_env_def crashing_env_def zero_budget_session_def
      one_retry_session_def)

text \<open>
  C2, amended. \<^verbatim>\<open>_process_query\<close> catches \<^verbatim>\<open>CodeExecutionError\<close> only. When the execution
  phase ends with a \<^verbatim>\<open>CodeExecutionError\<close>, the turn returns an error response whose error is
  the diagnostic text of that error, and whose code is the last attempted code whenever the
  execution phase has regenerated no code (so always for \<open>max_retries = 0\<close>). A terminal
  failure of every other class, in the generation phase or in the execution phase, is raised
  to the caller as it is.
\<close>

theorem process_query_terminal_failure:
  assumes "llm st = Some llm_type"
  shows
  "(generate_code_with_retries env query
        (assign_prompt_id ((log (LogRunning llm_type) (log (LogQuestion query) st))
           \<lparr>output_type := out_type\<rparr>)) = (Inr code, st5)
      \<and> execute_with_retries env code st5 = (Inl e, st6)
      \<and> exn_cls e = CodeExecutionError
    \<longrightarrow> (\<exists>c. fst (process_query env query out_type st)
              = Inr (Some (ErrorResponse c (format_exc (Some e))))
            \<and> (gen_requests st6 = gen_requests st5
                \<longrightarrow> c = code \<and> exec_requests st6 = exec_requests st5 @ [code])))
   \<and> (generate_code_with_retries env query
        (assign_prompt_id ((log (LogRunning llm_type) (log (LogQuestion query) st))
           \<lparr>output_type := out_type\<rparr>)) = (Inr code, st5)
      \<and> execute_with_retries env code st5 = (Inl e, st6)
      \<and> exn_cls e \<noteq> CodeExecutionError
    \<longrightarrow> fst (process_query env query out_type st) = Inl e)
   \<and> (generate_code_with_retries env query
        (assign_prompt_id ((log (LogRunning llm_type) (log (LogQuestion query) st))
           \<lparr>output_type := out_type\<rparr>)) = (Inl e, st5)
      \<and> exn_cls e \<noteq> CodeExecutionError
    \<longrightarrow> fst (process_query env query out_type st) = Inl e)"
proof -
  let ?st4 = "assign_prompt_id ((log (LogRunning llm_type) (log (LogQuestion query) st))
           \<lparr>output_type := out_type\<rparr>)"
  have handled: "\<exists>c. fst (process_query env query out_type st)
              = Inr (Some (ErrorResponse c (format_exc (Some e))))
            \<and> (gen_requests st6 = gen_requests st5
                \<longrightarrow> c = code \<and> exec_requests st6 = exec_requests st5 @ [code])"
    if g: "generate_code_with_retries env query ?st4 = (Inr code, st5)"
      and x: "execute_with_retries env code st5 = (Inl e, st6)"
      and c: "exn_cls e = CodeExecutionError"
  proof -
    have "fst (process_query env query out_type st)
        = Inr (Some (ErrorResponse code (format_exc (Some e))))"
      using assms g x c
      by (simp add: process_query_def Let_def isinstance_def handle_exception_def)
    moreover have "exec_requests st6 = exec_requests st5 @ [code]"
      if "gen_requests st6 = gen_requests st5"
      using execute_with_retries_without_regeneration [OF x that] .
    ultimately show ?thesis by blast
  qed
  have raised: "fst (process_query env query out_type st) = Inl e"
    if "generate_code_with_retries env query ?st4 = (Inr code, st5)"
      "execute_with_retries env code st5 = (Inl e, st6)"
      "exn_cls e \<noteq> CodeExecutionError"
    using assms that by (simp add: process_query_def Let_def isinstance_def)
  have raised_gen: "fst (process_query env query out_type st) = Inl e"
    if "generate_code_with_retries env query ?st4 = (Inl e, st5)"
      "exn_cls e \<noteq> CodeExecutionError"
    using assms that by (simp add: process_query_def Let_def isinstance_def)
  from handled raised raised_gen show ?thesis by blast
qed

theorem process_query_terminal_failure_witness:
  "fst (process_query crashing_env ''total sales'' None zero_budget_session)
     = Inr (Some (ErrorResponse (Some ''result = run(1)'')
         ''Traceback (most recent call last): CodeExecutionError: division by zero''))
   \<and> exec_requests (snd (process_query crashing_env ''total sales'' None zero_budget_session))
     = [Some ''result = run(1)'']"
proof -
  let ?st4 = "assign_prompt_id ((log (LogRunning ''openai'')
       (log (LogQuestion ''total sales'') zero_budget_session))\<lparr>output_type := None\<rparr>)"
  let ?g = "generate_code_with_retries crashing_env ''total sales'' ?st4"
  let ?x = "execute_with_retries crashing_env (Some ''result = run(1)'') (snd ?g)"
  let ?e = "Exn CodeExecutionError ''division by zero''"
  have l: "llm zero_budget_session = Some ''openai''"
    by (simp add: zero_budget_session_def initial_state_def)
  have "fst ?g = Inr (Some ''result = run(1)'')"
    by (simp add: session_eval crashing_env_def zero_budget_session_def)
  then have g: "?g = (Inr (Some ''result = run(1)''), snd ?g)"
    by (metis prod.collapse)
  have "fst ?x = Inl ?e"
    by (simp add: session_eval crashing_env_def zero_budget_session_def)
  then have x: "?x = (Inl ?e, snd ?x)"
    by (metis prod.collapse)
  have same: "gen_requests (snd ?x) = gen_requests (snd ?g)"
    by (simp add: session_eval crashing_env_def zero_budget_session_def)
  have none: "exec_requests (snd ?g) = []"
    by (simp add: session_eval crashing_env_def zero_budget_session_def)
  from process_query_terminal_failure [OF l, of crashing_env "''total sales''" None
      "Some ''result = run(1)''" "snd ?g" ?e "snd ?x", THEN conjunct1] g x same
  have "fst (process_query crashing_env ''total sales'' None zero_budget_session)
      = Inr (Some (ErrorResponse (Some ''result = run(1)'') (format_exc (Some ?e))))
    \<and> exec_requests (snd ?x) = exec_requests (snd ?g) @ [Some ''result = run(1)'']"
    by auto
  moreover have "exec_requests (snd (process_query crashing_env ''total sales'' None
      zero_budget_session)) = exec_requests (snd ?x)"
    by (simp add: session_eval crashing_env_def zero_budget_session_def)
  ultimately show ?thesis using none by (simp add: format_exc_def)
qed

subsection \<open>Configuration and connectivity errors\<close>

lemma execute_code_memory:
  "memory (snd (execute_code env code st)) = memory st"
  "output_type (snd (execute_code env code st)) = output_type st"
  by (simp_all add: execute_code_def Let_def log_def split: option.splits)





subsection \<open>What a correction request carries\<close>

text \<open>
  In the execution loop the correction request is built for the error of the execution that
  has just failed: it carries the program that failed and the diagnostic text of that error.
\<close>

lemma execution_correction_request:
  assumes x: "execute_code env code st = (Inl e, st1)" and n: "1 \<le> max_retries st"
  shows "\<exists>rest. gen_requests (snd (execute_with_retries env code st))
      = gen_requests st
        @ (if exn_cls e = InvalidLLMOutputType
           then CorrectOutputTypeErrorPrompt (memory st) (output_type st) code (format_exc (Some e))
           else CorrectErrorPromptForSql (memory st) (output_type st) code (format_exc (Some e)))
          # rest"
proof -
  let ?n = "max_retries st"
  let ?st = "log (LogRetryingExecution (0 + 1) ?n) st1"
  let ?p = "if exn_cls e = InvalidLLMOutputType
           then CorrectOutputTypeErrorPrompt (memory st) (output_type st) code (format_exc (Some e))
           else CorrectErrorPromptForSql (memory st) (output_type st) code (format_exc (Some e))"
  have st1: "gen_requests st1 = gen_requests st" "memory st1 = memory st"
    "output_type st1 = output_type st"
    using execute_code_gen_requests [of env code st] execute_code_memory [of env code st] x
    by simp_all
  obtain r st' where rg: "regenerate_code_after_error env code e (Some e) ?st = (r, st')"
    by (cases "regenerate_code_after_error env code e (Some e) ?st")
  have st': "gen_requests st' = gen_requests st @ [?p]"
    using regenerate_request [of env code e "Some e" ?st] rg st1 by simp
  have "\<exists>rest. gen_requests (snd (execution_failed env ?n code 0 e st1))
      = gen_requests st' @ rest"
  proof (cases r)
    case (Inl e')
    with rg n show ?thesis
      unfolding execution_failed.simps [of env ?n code 0 e st1] by simp
  next
    case (Inr code')
    with rg n have "execution_failed env ?n code 0 e st1
        = execution_retry_loop env ?n (Some code') (0 + 1) st'"
      unfolding execution_failed.simps [of env ?n code 0 e st1] by simp
    with execution_retry_loop_requests(1) [of env ?n "Some code'" "0 + 1" st']
    show ?thesis by simp
  qed
  moreover have "execute_with_retries env code st = execution_failed env ?n code 0 e st1"
    using x n unfolding execute_with_retries_def
      execution_retry_loop.simps [of env ?n code 0 st] by simp
  ultimately show ?thesis using st' by auto
qed

text \<open>
  C8 (classification of the error). The claim: the correction request is the fix-output-type
  prompt if and only if the error is an \<^verbatim>\<open>InvalidLLMOutputType\<close> and the fix-error prompt for
  every other error, and in both cases it carries the failing code and the captured
  diagnostic text. \<^verbatim>\<open>_regenerate_code_after_error\<close> keeps this for what it is given
  (\<open>regenerate_code_after_error_classifies\<close>), and so does the execution loop
  (\<open>execution_correction_request\<close>). The loop of \<^verbatim>\<open>generate_code_with_retries\<close> does not: it
  runs inside the handler of the first failure, so from the second correction request on
  \<^verbatim>\<open>traceback.format_exc()\<close> renders the first error again, while the request is built for the
  latest error. The theorem runs a session with the budget of three retries. The first
  program is rejected for a table outside the session and the correction for its import; the
  second correction request is built for the import error, with the program that has the
  import, but the diagnostic text it carries is that of the first error.
\<close>

theorem second_correction_request_carries_first_traceback:
  "max_retries default_session = 3
   \<and> fst (generate_code two_faults_env ''total sales'' default_session)
     = Inl (Exn MaliciousQueryError ''orders'')
   \<and> outcome (code_generator two_faults_env 1
        (CorrectErrorPromptForSql [(''total sales'', True)] None (Some ''result = query(orders)'')
           ''Traceback (most recent call last): MaliciousQueryError: orders''))
     = Inl (Exn BadImportError ''os'')
   \<and> gen_requests (snd (generate_code_with_retries two_faults_env ''total sales'' default_session))
     = [ChatPromptForSql [(''total sales'', True)] None,
        CorrectErrorPromptForSql [(''total sales'', True)] None (Some ''result = query(orders)'')
          ''Traceback (most recent call last): MaliciousQueryError: orders'',
        CorrectErrorPromptForSql [(''total sales'', True)] None (Some ''import os'')
          ''Traceback (most recent call last): MaliciousQueryError: orders'']
   \<and> format_exc (Some (Exn BadImportError ''os''))
     = ''Traceback (most recent call last): BadImportError: os''"
  by (simp add: session_eval two_faults_env_def default_session_def)

end
